theory Spec2Isabelle
  imports Complex_Main "HOL-Library.Sublist" "HOL-Library.AList"
begin

section \<open>Python strings and paths\<close>

text \<open>
  A Python \<^verbatim>\<open>str\<close> is a sequence of Unicode code points, so it is modelled as a list of
  natural numbers: \<^verbatim>\<open>len\<close> is \<open>length\<close>, slicing is \<open>take\<close>/\<open>drop\<close>. ASCII
  literals of the source are written \<open>u ''...''\<close>.
\<close>

type_synonym pystr = "nat list"

definition u :: "string \<Rightarrow> pystr" where
  "u s = map of_char s"

text \<open>Truthiness of an optional string (\<^verbatim>\<open>None\<close> and \<^verbatim>\<open>""\<close> are falsy).\<close>

fun truthy :: "pystr option \<Rightarrow> bool" where
  "truthy None = False"
| "truthy (Some s) = (s \<noteq> [])"

text \<open>\<^verbatim>\<open>sep.join(xs)\<close>.\<close>

fun str_join :: "pystr \<Rightarrow> pystr list \<Rightarrow> pystr" where
  "str_join sep [] = []"
| "str_join sep [x] = x"
| "str_join sep (x # y # ys) = x @ sep @ str_join sep (y # ys)"

text \<open>\<^verbatim>\<open>str(n)\<close> for a non-negative integer: its decimal digits.\<close>

fun digits_of :: "nat \<Rightarrow> nat \<Rightarrow> pystr" where
  "digits_of 0 n = []"
| "digits_of (Suc fuel) n =
     (if n < 10 then [48 + n] else digits_of fuel (n div 10) @ [48 + n mod 10])"

definition str_of_nat :: "nat \<Rightarrow> pystr" where
  "str_of_nat n = digits_of (Suc n) n"

text \<open>\<^verbatim>\<open>s.rfind(c)\<close> for a single character: the last index of \<open>c\<close>, or \<open>-1\<close>.\<close>

fun rfind_from :: "nat \<Rightarrow> nat \<Rightarrow> pystr \<Rightarrow> int \<Rightarrow> int" where
  "rfind_from c i [] acc = acc"
| "rfind_from c i (x # xs) acc = rfind_from c (Suc i) xs (if x = c then int i else acc)"

definition rfind :: "pystr \<Rightarrow> nat \<Rightarrow> int" where
  "rfind s c = rfind_from c 0 s (-1)"

text \<open>\<^verbatim>\<open>os.path.basename\<close> (POSIX): everything after the last \<^verbatim>\<open>/\<close>.\<close>

definition basename :: "pystr \<Rightarrow> pystr" where
  "basename p = drop (nat (rfind p 47 + 1)) p"

text \<open>
  \<^verbatim>\<open>os.path.splitext(p)[0]\<close> (POSIX): cut at the last dot, when that dot comes after the
  last \<^verbatim>\<open>/\<close> and some character between them is not a dot.
\<close>

definition splitext_root :: "pystr \<Rightarrow> pystr" where
  "splitext_root p =
     (let sepIndex = rfind p 47; dotIndex = rfind p 46 in
      if dotIndex > sepIndex \<and>
         (\<exists>c \<in> set (drop (nat (sepIndex + 1)) (take (nat dotIndex) p)). c \<noteq> 46)
      then take (nat dotIndex) p else p)"

text \<open>
  \<^verbatim>\<open>os.path.join(a, b)\<close> (POSIX) for two components: an absolute \<open>b\<close> replaces \<open>a\<close>;
  otherwise a \<^verbatim>\<open>/\<close> is inserted unless \<open>a\<close> is empty or already ends with one.
\<close>

definition path_join :: "pystr \<Rightarrow> pystr \<Rightarrow> pystr" where
  "path_join a b =
     (if b \<noteq> [] \<and> hd b = 47 then b
      else if a = [] \<or> last a = 47 then a @ b
      else a @ [47] @ b)"

text \<open>The global \<^verbatim>\<open>output_dir = "output"\<close>.\<close>

definition output_dir :: pystr where
  "output_dir = u ''output''"

section \<open>Configuration data\<close>

text \<open>
  The configuration is a JSON dictionary; the keys the program reads are the fields of
  these records. A field is \<open>None\<close> when the key is absent (what \<^verbatim>\<open>dict.get\<close> returns).
\<close>

record pod_user =
  pu_code :: "pystr option"
  pu_owner :: "pystr option"
  pu_role :: "pystr option"

record voice =
  v_code :: "pystr option"
  v_usedname :: "pystr option"
  v_alias :: "pystr option"
  v_name :: "pystr option"
  v_volume_adjustment :: "real option"
  v_speed_adjustment :: "real option"

record config_data =
  podUsers :: "pod_user list option"
  voices :: "voice list option"
  tts_provider :: "pystr option"
  tts_max_retries :: "int option"

text \<open>\<^verbatim>\<open>config_data.get("podUsers", [])\<close> and \<^verbatim>\<open>config_data.get("voices", [])\<close>.\<close>

definition config_pod_users :: "config_data \<Rightarrow> pod_user list" where
  "config_pod_users cfg = (case podUsers cfg of None \<Rightarrow> [] | Some us \<Rightarrow> us)"

definition config_voices :: "config_data \<Rightarrow> voice list" where
  "config_voices cfg = (case voices cfg of None \<Rightarrow> [] | Some vs \<Rightarrow> vs)"

section \<open>Exceptions\<close>

text \<open>
  Every \<^verbatim>\<open>raise\<close> of the source is a constructor that carries the values its message
  interpolates. Exceptions raised by collaborators outside the program (the TTS adapters,
  the upstream client, the file system) carry their class only as far as the program's
  \<^verbatim>\<open>except\<close> clauses distinguish it.
\<close>

datatype exn =
    FileNotFoundError pystr
  | JSONConfigError pystr
  | SpeakerNameNotFound "pystr option" nat
  | NoVoiceCode int
  | AdapterKeyError "pystr option"
  | BackendRuntimeError pystr
  | BackendException pystr
  | MaxRetriesReached int int "pystr option"
  | UnexpectedTTSError int "pystr option" nat exn
  | CalledProcessError
  | AttributeError
  | UpstreamError pystr
  | ScriptNotFound pystr
  | ScriptEmpty
  | ScriptBelowQuality nat
  | ScriptDecodeError pystr pystr
  | ScriptGenerationError nat exn
  | CopyError
  | TrimError pystr
  | TrimUnexpected pystr exn
  | TypeError
  | ItemError nat exn
  | NoAudioFiles
  | CountMismatch nat nat
  | FFmpegNotInstalled
  | MergeError

section \<open>Loading the configuration from a path\<close>

text \<open>
  \<^verbatim>\<open>_load_configuration_path(config_path, pod_users)\<close>. Reading and decoding the file
  (\<^verbatim>\<open>_load_json_config\<close>) is the parameter \<open>load_json_config\<close>. The order in which
  \<^verbatim>\<open>list(set(...))\<close> enumerates the owners depends on string hashing, so the enumeration
  is the parameter \<open>list_set\<close>. The name computed from the file's basename
  (\<open>default_tts_provider\<close>) is bound as in the source and, as there, never read.
\<close>

definition roster_of :: "config_data \<Rightarrow> pod_user list option \<Rightarrow> pod_user list" where
  "roster_of cfg pod_users =
     (case pod_users of
        Some us \<Rightarrow> us
      | None \<Rightarrow> (case podUsers cfg of Some us \<Rightarrow> us | None \<Rightarrow> []))"

definition owners_of :: "pod_user list \<Rightarrow> pystr list" where
  "owners_of us = map (\<lambda>user. the (pu_owner user)) (filter (\<lambda>user. truthy (pu_owner user)) us)"

definition load_configuration_path ::
  "(pystr \<Rightarrow> exn + config_data) \<Rightarrow> (pystr list \<Rightarrow> pystr list) \<Rightarrow>
   pystr \<Rightarrow> pod_user list option \<Rightarrow> exn + config_data" where
  "load_configuration_path load_json_config list_set config_path pod_users =
     (case load_json_config config_path of
        Inl e \<Rightarrow> Inl e
      | Inr cfg \<Rightarrow>
          (let file_name = basename config_path;
               default_tts_provider = splitext_root file_name;
               users = roster_of cfg pod_users;
               owners = (if users \<noteq> [] then list_set (owners_of users) else []);
               provider = (if owners \<noteq> [] then str_join (u '','') owners else u ''edge-tts'')
           in Inr (cfg\<lparr>tts_provider := Some provider\<rparr>)))"

text \<open>What a Python set guarantees about the list made from it.\<close>

definition enumerates_set :: "(pystr list \<Rightarrow> pystr list) \<Rightarrow> bool" where
  "enumerates_set list_set = (\<forall>xs. distinct (list_set xs) \<and> set (list_set xs) = set xs)"

section \<open>Speaker resolution\<close>

text \<open>
  The dictionary comprehension \<^verbatim>\<open>{voice.get("code"): voice for voice in voices_list if
  voice.get("code")}\<close>: a later voice with the same code replaces an earlier one.
\<close>

definition voice_map :: "voice list \<Rightarrow> pystr \<rightharpoonup> voice" where
  "voice_map voices_list =
     fold (\<lambda>v m. if truthy (v_code v) then m(the (v_code v) \<mapsto> v) else m) voices_list Map.empty"

text \<open>\<^verbatim>\<open>voice_map.get(code)\<close>, where \<open>code\<close> itself may be \<^verbatim>\<open>None\<close> (never a key).\<close>

definition voice_map_get :: "(pystr \<rightharpoonup> voice) \<Rightarrow> pystr option \<Rightarrow> voice option" where
  "voice_map_get vm code = (case code of None \<Rightarrow> None | Some c \<Rightarrow> vm c)"

text \<open>Python's \<^verbatim>\<open>a or b\<close> on optional strings.\<close>

definition py_or :: "pystr option \<Rightarrow> pystr option \<Rightarrow> pystr option" where
  "py_or a b = (if truthy a then a else b)"

definition found_name_of :: "voice option \<Rightarrow> pystr option" where
  "found_name_of vo =
     (case vo of
        None \<Rightarrow> None
      | Some v \<Rightarrow> py_or (py_or (v_usedname v) (v_alias v)) (v_name v))"

text \<open>
  The loop of \<^verbatim>\<open>generate_speaker_id_text\<close> over \<^verbatim>\<open>enumerate(pod_users)\<close>: one clause per
  roster entry, or the \<^verbatim>\<open>ValueError\<close> of the first entry without a name. The literals are
  the code points of the source's Chinese text.
\<close>

fun speaker_info_from :: "(pystr \<rightharpoonup> voice) \<Rightarrow> nat \<Rightarrow> pod_user list \<Rightarrow> exn + pystr list" where
  "speaker_info_from vm speaker_id [] = Inr []"
| "speaker_info_from vm speaker_id (pod_user # rest) =
     (let pod_user_code = pu_code pod_user;
          role = (case pu_role pod_user of None \<Rightarrow> [] | Some r \<Rightarrow> r);
          found_name = found_name_of (voice_map_get vm pod_user_code)
      in if truthy found_name then
           (let clause =
                  (if role \<noteq> [] then
                     u ''speaker_id='' @ str_of_nat speaker_id @ [30340, 21517, 21483]
                       @ the found_name @ [65292, 26159, 19968, 20010] @ role
                   else
                     u ''speaker_id='' @ str_of_nat speaker_id @ [30340, 21517, 21483]
                       @ the found_name)
            in case speaker_info_from vm (Suc speaker_id) rest of
                 Inl e \<Rightarrow> Inl e
               | Inr info \<Rightarrow> Inr (clause # info))
         else Inl (SpeakerNameNotFound pod_user_code speaker_id))"

definition generate_speaker_id_text :: "pod_user list \<Rightarrow> voice list \<Rightarrow> exn + pystr" where
  "generate_speaker_id_text pod_users voices_list =
     (case speaker_info_from (voice_map voices_list) 0 pod_users of
        Inl e \<Rightarrow> Inl e
      | Inr speaker_info \<Rightarrow> Inr (str_join [12290] speaker_info @ [12290]))"


section \<open>Synthesis of one utterance\<close>

record item =
  speaker_id :: int
  dialog :: pystr

text \<open>The keyword arguments of \<^verbatim>\<open>generate_audio\<close>.\<close>

record tts_call =
  c_text :: pystr
  c_voice_code :: pystr
  c_output_dir :: pystr
  c_volume_adjustment :: real
  c_speed_adjustment :: real

text \<open>
  A TTS adapter is a collaborator outside the program. What one call does is one of:
  it returns a value (a path, possibly \<^verbatim>\<open>None\<close>), it raises a \<^verbatim>\<open>RuntimeError\<close>, or it
  raises another \<^verbatim>\<open>Exception\<close>. An adapter gives the outcome of the \<open>k\<close>-th call a task
  makes with a request.
\<close>

datatype backend_outcome =
    Returned "pystr option"
  | RaisedRuntimeError pystr
  | RaisedException pystr

type_synonym adapter = "tts_call \<Rightarrow> nat \<Rightarrow> backend_outcome"

datatype event = BackendCall tts_call | Sleep nat

text \<open>
  Whitespace as \<^verbatim>\<open>str.isspace\<close>, \<^verbatim>\<open>str.strip\<close> and the pattern \<^verbatim>\<open>\s\<close> know it.
\<close>

definition py_isspace :: "nat \<Rightarrow> bool" where
  "py_isspace c =
     ((9 \<le> c \<and> c \<le> 13) \<or> (28 \<le> c \<and> c \<le> 32) \<or> c = 133 \<or> c = 160 \<or> c = 5760
      \<or> (8192 \<le> c \<and> c \<le> 8202) \<or> c = 8232 \<or> c = 8233 \<or> c = 8239 \<or> c = 8287 \<or> c = 12288)"

text \<open>
  \<^verbatim>\<open>re.sub(r'[^...]', '', dialog)\<close>: a character is kept when it is in the class \<^verbatim>\<open>\w\<close> or
  \<^verbatim>\<open>\s\<close>, is one of \<^verbatim>\<open>- , . ? !\<close>, the fullwidth comma (U+FF0C), the ideographic full
  stop (U+3002), the fullwidth question mark (U+FF1F) or exclamation mark (U+FF01), or
  lies in the range U+4E00..U+9FA5. The class \<^verbatim>\<open>\w\<close> is a table of the Unicode database;
  it is the parameter \<open>re_w\<close>.
\<close>

definition sanitize :: "(nat \<Rightarrow> bool) \<Rightarrow> pystr \<Rightarrow> pystr" where
  "sanitize re_w s =
     filter (\<lambda>c. re_w c \<or> py_isspace c
                \<or> c \<in> set [45, 44, 65292, 46, 12290, 63, 65311, 33, 65281]
                \<or> (19968 \<le> c \<and> c \<le> 40869)) s"

text \<open>
  The loop \<^verbatim>\<open>for attempt in range(max_retries)\<close> of \<^verbatim>\<open>generate_audio_for_item\<close>, from
  \<open>attempt\<close> on. It returns what the function returns or raises, and the backend calls and
  sleeps it made, in order. When the range is exhausted without entering the loop the
  function falls off its end and returns \<^verbatim>\<open>None\<close>.
\<close>

function tts_attempts ::
  "(nat \<Rightarrow> backend_outcome) \<Rightarrow> tts_call \<Rightarrow> int \<Rightarrow> int \<Rightarrow> pystr option \<Rightarrow> nat
     \<Rightarrow> (exn + pystr option) \<times> event list" where
  "tts_attempts call req max_retries sid vc attempt =
     (if int attempt < max_retries then
        (case call attempt of
           Returned temp_audio_file \<Rightarrow> (Inr temp_audio_file, [BackendCall req])
         | RaisedRuntimeError m \<Rightarrow>
             (if int attempt < max_retries - 1 then
                (let (r, evs) = tts_attempts call req max_retries sid vc (Suc attempt)
                 in (r, BackendCall req # Sleep (2 ^ attempt) # evs))
              else (Inl (MaxRetriesReached max_retries sid vc), [BackendCall req]))
         | RaisedException m \<Rightarrow>
             (Inl (UnexpectedTTSError sid vc (attempt + 1) (BackendException m)),
              [BackendCall req]))
      else (Inr None, []))"
  by pat_completeness auto
termination
  by (relation "measure (\<lambda>(call, req, max_retries, sid, vc, attempt). nat (max_retries - int attempt))")
     auto

declare tts_attempts.simps [simp del]

text \<open>
  \<^verbatim>\<open>generate_audio_for_item(item, config_data, tts_adapter, max_retries)\<close>. The adapter
  mapping is a dictionary from provider names to adapters; indexing it with a missing key
  (or with \<^verbatim>\<open>None\<close>) raises \<^verbatim>\<open>KeyError\<close>.
\<close>

definition resolve_voice ::
  "config_data \<Rightarrow> int \<Rightarrow> pystr option \<times> real \<times> real \<times> pystr option" where
  "resolve_voice cfg sid =
     (case podUsers cfg of
        None \<Rightarrow> (None, 0, 0, None)
      | Some users \<Rightarrow>
          if 0 \<le> sid \<and> sid < int (length users) then
            (let pod_user_entry = users ! nat sid;
                 voice_code = pu_code pod_user_entry;
                 voice_tts_provider = pu_owner pod_user_entry;
                 vm = voice_map (case voices cfg of None \<Rightarrow> [] | Some vs \<Rightarrow> vs);
                 volume_adjustment =
                   (case voice_map_get vm voice_code of
                      None \<Rightarrow> 0
                    | Some v \<Rightarrow> (case v_volume_adjustment v of None \<Rightarrow> 0 | Some x \<Rightarrow> x));
                 speed_adjustment =
                   (case voice_map_get vm voice_code of
                      None \<Rightarrow> 0
                    | Some v \<Rightarrow> (case v_speed_adjustment v of None \<Rightarrow> 0 | Some x \<Rightarrow> x))
             in (voice_code, volume_adjustment, speed_adjustment, voice_tts_provider))
          else (None, 0, 0, None))"

definition generate_audio_for_item ::
  "(nat \<Rightarrow> bool) \<Rightarrow> item \<Rightarrow> config_data \<Rightarrow> (pystr \<rightharpoonup> adapter) \<Rightarrow> int
     \<Rightarrow> (exn + pystr option) \<times> event list" where
  "generate_audio_for_item re_w it cfg tts_adapter max_retries =
     (case resolve_voice cfg (speaker_id it) of
        (voice_code, volume_adjustment, speed_adjustment, voice_tts_provider) \<Rightarrow>
          if \<not> truthy voice_code then (Inl (NoVoiceCode (speaker_id it)), [])
          else
            (case (case voice_tts_provider of None \<Rightarrow> None | Some p \<Rightarrow> tts_adapter p) of
               None \<Rightarrow> (Inl (AdapterKeyError voice_tts_provider), [])
             | Some selected_adapter \<Rightarrow>
                 (let req = \<lparr>c_text = sanitize re_w (dialog it),
                             c_voice_code = the voice_code,
                             c_output_dir = output_dir,
                             c_volume_adjustment = volume_adjustment,
                             c_speed_adjustment = speed_adjustment\<rparr>
                  in tts_attempts (selected_adapter req) req max_retries
                       (speaker_id it) voice_code 0)))"





section \<open>The synthesis orchestrator\<close>

record podcast_script =
  podcast_transcripts :: "item list option"

text \<open>
  The states of a \<^verbatim>\<open>concurrent.futures.Future\<close> that \<^verbatim>\<open>done()\<close> and \<^verbatim>\<open>cancel()\<close>
  distinguish: \<^verbatim>\<open>done()\<close> holds of a finished or cancelled future; \<^verbatim>\<open>cancel()\<close> leaves a
  running or finished future as it is and cancels any other.
\<close>

datatype future_state = PENDING | RUNNING | FINISHED | CANCELLED

fun future_done :: "future_state \<Rightarrow> bool" where
  "future_done FINISHED = True"
| "future_done CANCELLED = True"
| "future_done PENDING = False"
| "future_done RUNNING = False"

fun future_cancel :: "future_state \<Rightarrow> future_state" where
  "future_cancel RUNNING = RUNNING"
| "future_cancel FINISHED = FINISHED"
| "future_cancel PENDING = CANCELLED"
| "future_cancel CANCELLED = CANCELLED"

text \<open>
  The path of the trimmed clip:
  \<^verbatim>\<open>os.path.join(output_dir, f"trimmed_{os.path.basename(original_audio_file)}")\<close>.
\<close>

definition trimmed_path :: "pystr \<Rightarrow> pystr" where
  "trimmed_path original_audio_file =
     path_join output_dir (u ''trimmed_'' @ basename original_audio_file)"

text \<open>
  The loop \<^verbatim>\<open>for future in as_completed(future_to_index)\<close>. The list is the order in which
  the futures complete, as indices; \<open>result\<close> gives what \<^verbatim>\<open>future.result()\<close> returns or
  raises for an index; \<open>trim\<close> is the call of \<^verbatim>\<open>trim_audio_silence\<close> (\<open>None\<close> when it
  returns, the exception when it raises). The dictionary \<^verbatim>\<open>audio_files_dict\<close> is an
  association list. The loop returns \<^verbatim>\<open>exception_caught\<close>, the dictionary, and the
  indices whose results it consumed; it stops at the first exception.
\<close>

fun consume_results ::
  "(nat \<Rightarrow> exn + pystr option) \<Rightarrow> (pystr \<Rightarrow> pystr \<Rightarrow> exn option) \<Rightarrow> nat list
     \<Rightarrow> (nat \<times> pystr) list \<Rightarrow> exn option \<times> (nat \<times> pystr) list \<times> nat list" where
  "consume_results result trim [] audio_files_dict = (None, audio_files_dict, [])"
| "consume_results result trim (index # rest) audio_files_dict =
     (case result index of
        Inl e \<Rightarrow> (Some (ItemError index e), audio_files_dict, [index])
      | Inr original_audio_file \<Rightarrow>
          if truthy original_audio_file then
            (let trimmed_audio_file = trimmed_path (the original_audio_file) in
             case trim (the original_audio_file) trimmed_audio_file of
               Some e \<Rightarrow> (Some (ItemError index e), audio_files_dict, [index])
             | None \<Rightarrow>
                 (case consume_results result trim rest
                         (AList.update index trimmed_audio_file audio_files_dict) of
                    (exc, d, consumed) \<Rightarrow> (exc, d, index # consumed)))
          else
            (case consume_results result trim rest audio_files_dict of
               (exc, d, consumed) \<Rightarrow> (exc, d, index # consumed)))"

text \<open>\<^verbatim>\<open>[audio_files_dict[i] for i in sorted(audio_files_dict.keys())]\<close>.\<close>

definition files_in_index_order :: "(nat \<times> pystr) list \<Rightarrow> pystr list" where
  "files_in_index_order d = map (\<lambda>i. the (map_of d i)) (sort (map fst d))"

text \<open>
  What a run of the orchestrator leaves behind: what it returns or raises, the indices
  whose results it consumed, the backend calls and sleeps of the consumed tasks, and the
  states of the futures after the cancellation loop.
\<close>

record run_report =
  outcome :: "exn + pystr list"
  consumed :: "nat list"
  task_events :: "event list"
  futures :: "future_state list"

text \<open>
  The callable submitted to the executor for index \<open>i\<close>:
  \<^verbatim>\<open>generate_audio_for_item(item, config_data, tts_adapter, max_retries)\<close> with
  \<^verbatim>\<open>max_retries = config_data.get("tts_max_retries", 3)\<close>.
\<close>

definition run_task ::
  "(nat \<Rightarrow> bool) \<Rightarrow> podcast_script \<Rightarrow> config_data \<Rightarrow> (pystr \<rightharpoonup> adapter) \<Rightarrow> nat
     \<Rightarrow> (exn + pystr option) \<times> event list" where
  "run_task re_w script cfg tts_adapter i =
     (let transcripts = (case podcast_transcripts script of None \<Rightarrow> [] | Some ts \<Rightarrow> ts);
          max_retries = (case tts_max_retries cfg of None \<Rightarrow> 3 | Some n \<Rightarrow> n)
      in generate_audio_for_item re_w (transcripts ! i) cfg tts_adapter max_retries)"

text \<open>
  \<^verbatim>\<open>_generate_all_audio_files\<close>. The thread pool decides only in which order the futures
  complete and which tasks have started when an exception is caught; both are
  parameters: \<open>order\<close>, the completion order, and \<open>states\<close>, the states of the futures
  (by index) when the cancellation loop runs. That loop cancels every future that is not
  done; it runs only after an exception.
\<close>

definition generate_all_audio_files ::
  "(nat \<Rightarrow> bool) \<Rightarrow> podcast_script \<Rightarrow> config_data \<Rightarrow> (pystr \<rightharpoonup> adapter) \<Rightarrow> nat list
     \<Rightarrow> future_state list \<Rightarrow> (pystr \<Rightarrow> pystr \<Rightarrow> bool \<Rightarrow> exn option) \<Rightarrow> bool \<Rightarrow> run_report" where
  "generate_all_audio_files re_w script cfg tts_adapter order states trim enable_trim_silence =
     (case consume_results (\<lambda>i. fst (run_task re_w script cfg tts_adapter i))
             (\<lambda>src dst. trim src dst enable_trim_silence) order [] of
        (exception_caught, audio_files_dict, done_indices) \<Rightarrow>
          (case exception_caught of
             Some e \<Rightarrow>
               \<lparr>outcome = Inl e, consumed = done_indices,
                task_events =
                  concat (map (\<lambda>i. snd (run_task re_w script cfg tts_adapter i)) done_indices),
                futures = map (\<lambda>f. if \<not> future_done f then future_cancel f else f) states\<rparr>
           | None \<Rightarrow>
               \<lparr>outcome = Inr (files_in_index_order audio_files_dict),
                consumed = done_indices,
                task_events =
                  concat (map (\<lambda>i. snd (run_task re_w script cfg tts_adapter i)) done_indices),
                futures = states\<rparr>))"

text \<open>
  The exception the loop catches at an index, if any: the one \<^verbatim>\<open>future.result()\<close> raises,
  or the one the trim raises. A result that is \<^verbatim>\<open>None\<close> or empty is skipped without one.
\<close>

definition item_failure ::
  "(nat \<Rightarrow> exn + pystr option) \<Rightarrow> (pystr \<Rightarrow> pystr \<Rightarrow> exn option) \<Rightarrow> nat \<Rightarrow> exn option" where
  "item_failure result trim i =
     (case result i of
        Inl e \<Rightarrow> Some e
      | Inr original \<Rightarrow>
          if truthy original then trim (the original) (trimmed_path (the original)) else None)"

text \<open>The dictionary after one index whose task and trim did not fail.\<close>

definition collected ::
  "(nat \<Rightarrow> exn + pystr option) \<Rightarrow> (nat \<times> pystr) list \<Rightarrow> nat \<Rightarrow> (nat \<times> pystr) list" where
  "collected result d i =
     (case result i of
        Inr (Some p) \<Rightarrow> if p \<noteq> [] then AList.update i (trimmed_path p) d else d
      | _ \<Rightarrow> d)"

text \<open>The exception the loop of a run catches at an index, if any.\<close>

definition loop_failure ::
  "(nat \<Rightarrow> bool) \<Rightarrow> podcast_script \<Rightarrow> config_data \<Rightarrow> (pystr \<rightharpoonup> adapter)
     \<Rightarrow> (pystr \<Rightarrow> pystr \<Rightarrow> bool \<Rightarrow> exn option) \<Rightarrow> bool \<Rightarrow> nat \<Rightarrow> exn option" where
  "loop_failure re_w script cfg tts_adapter trim enable i =
     item_failure (\<lambda>i. fst (run_task re_w script cfg tts_adapter i))
       (\<lambda>src dst. trim src dst enable) i"

section \<open>The file list for ffmpeg\<close>

text \<open>
  The files of the working directory: a map from paths to contents. The line the manifest
  holds for a clip is \<^verbatim>\<open>file '<basename>'\<close> and a newline.
\<close>

type_synonym filesystem = "pystr \<rightharpoonup> pystr"

definition file_line :: "pystr \<Rightarrow> pystr" where
  "file_line audio_file = u ''file '' @ [39] @ basename audio_file @ [39, 10]"

text \<open>
  \<^verbatim>\<open>_create_ffmpeg_file_list(audio_files, expected_count)\<close>; \<open>unique_id\<close> is the hexadecimal
  UUID it draws. It returns the path of the manifest and writes the manifest.
\<close>

definition create_ffmpeg_file_list ::
  "filesystem \<Rightarrow> pystr \<Rightarrow> pystr list \<Rightarrow> nat \<Rightarrow> exn + pystr \<times> filesystem" where
  "create_ffmpeg_file_list fs unique_id audio_files expected_count =
     (if audio_files = [] then Inl NoAudioFiles
      else if length audio_files \<noteq> expected_count then
        Inl (CountMismatch expected_count (length audio_files))
      else
        (let unique_file_list_path =
               path_join output_dir (u ''file_list_'' @ unique_id @ u ''.txt'')
         in Inr (unique_file_list_path,
                 fs(unique_file_list_path \<mapsto> concat (map file_line audio_files)))))"

section \<open>Trimming silence\<close>

text \<open>
  How an external command ends: it succeeds, the executable is missing
  (\<^verbatim>\<open>FileNotFoundError\<close>), or it exits with an error (\<^verbatim>\<open>CalledProcessError\<close> under
  \<^verbatim>\<open>check=True\<close>).
\<close>

datatype proc_result = Ok | NotFound | Failed

text \<open>
  What the external tools do for one clip. The silence intervals are the two lists the
  source parses from the output of the \<^verbatim>\<open>silencedetect\<close> filter; durations are what
  \<^verbatim>\<open>get_audio_duration\<close> returns (\<open>None\<close> when it cannot determine one). Times are real
  numbers: the rounding of floating-point subtraction and addition is not modelled.
\<close>

record trim_env =
  te_version :: proc_result
  te_copy :: proc_result
  te_silence_starts :: "real list"
  te_silence_ends :: "real list"
  te_duration :: "real option"
  te_trim :: proc_result
  te_out_duration :: "real option"

text \<open>The command the trimmer ends with: a stream copy, or a re-encode of a window.\<close>

datatype trim_action = VerbatimCopy | WindowedReencode real real

text \<open>
  The fallback \<^verbatim>\<open>subprocess.run(["ffmpeg", "-i", input, "-c", "copy", output], check=True)\<close>
  inside the \<^verbatim>\<open>try\<close> of the enabled path, with that \<^verbatim>\<open>try\<close>'s handlers.
\<close>

definition fallback_copy :: "trim_env \<Rightarrow> pystr \<Rightarrow> exn + trim_action" where
  "fallback_copy env input_filepath =
     (case te_copy env of
        Ok \<Rightarrow> Inr VerbatimCopy
      | Failed \<Rightarrow> Inl (TrimError input_filepath)
      | NotFound \<Rightarrow> Inl (TrimUnexpected input_filepath (FileNotFoundError (u ''ffmpeg''))))"

text \<open>\<^verbatim>\<open>trim_audio_silence\<close>.\<close>

definition trim_audio_silence ::
  "trim_env \<Rightarrow> pystr \<Rightarrow> pystr \<Rightarrow> real \<Rightarrow> real \<Rightarrow> bool \<Rightarrow> exn + trim_action" where
  "trim_audio_silence env input_filepath output_filepath silence_threshold_db
       min_silence_duration enable_trim =
     (if \<not> enable_trim then
        (case te_copy env of
           Ok \<Rightarrow> Inr VerbatimCopy
         | Failed \<Rightarrow> Inl CopyError
         | NotFound \<Rightarrow> Inl (FileNotFoundError (u ''ffmpeg'')))
      else
        (case te_version env of
           NotFound \<Rightarrow> Inl FFmpegNotInstalled
         | Failed \<Rightarrow> Inl CalledProcessError
         | Ok \<Rightarrow>
             (let silence_starts = te_silence_starts env;
                  silence_ends = te_silence_ends env
              in case te_duration env of
                   None \<Rightarrow> fallback_copy env input_filepath
                 | Some current_audio_duration \<Rightarrow>
                     (let padding_ms = 0.2;
                          start_trim_val =
                            (if silence_starts \<noteq> [] \<and> silence_ends \<noteq> []
                                \<and> hd silence_starts = 0
                             then max 0 (hd silence_ends - padding_ms) else 0);
                          end_trim_val =
                            (if silence_starts \<noteq> [] \<and> silence_ends \<noteq> []
                                \<and> last silence_ends
                                     \<ge> current_audio_duration - min_silence_duration
                             then min current_audio_duration (last silence_starts + padding_ms)
                             else current_audio_duration)
                      in if end_trim_val - start_trim_val \<le> 0.01 then
                           fallback_copy env input_filepath
                         else
                           (case te_trim env of
                              Failed \<Rightarrow> Inl (TrimError input_filepath)
                            | NotFound \<Rightarrow>
                                Inl (TrimUnexpected input_filepath
                                       (FileNotFoundError (u ''ffmpeg'')))
                            | Ok \<Rightarrow>
                                (case te_out_duration env of
                                   None \<Rightarrow> Inl (TrimUnexpected input_filepath TypeError)
                                 | Some trimmed_duration \<Rightarrow>
                                     Inr (WindowedReencode start_trim_val end_trim_val)))))))"

text \<open>
  The call the orchestrator makes, with the default threshold (\<open>-60\<close> dB) and the default
  minimum silence duration (\<open>0.5\<close> s): \<open>None\<close> when it returns, the exception otherwise.
\<close>

definition trim_call :: "(pystr \<Rightarrow> trim_env) \<Rightarrow> pystr \<Rightarrow> pystr \<Rightarrow> bool \<Rightarrow> exn option" where
  "trim_call envs src dst enable_trim =
     (case trim_audio_silence (envs src) src dst (-60) 0.5 enable_trim of
        Inl e \<Rightarrow> Some e
      | Inr a \<Rightarrow> None)"

section \<open>Concatenation and cleanup\<close>

text \<open>
  Text files are read with universal newlines: \<^verbatim>\<open>\r\n\<close> and \<^verbatim>\<open>\r\<close> become \<^verbatim>\<open>\n\<close>; iterating
  over the file yields the lines with their terminators.
\<close>

fun universal_newlines :: "pystr \<Rightarrow> pystr" where
  "universal_newlines [] = []"
| "universal_newlines [x] = (if x = 13 then [10] else [x])"
| "universal_newlines (x # y # xs) =
     (if x = 13 \<and> y = 10 then 10 # universal_newlines xs
      else if x = 13 then 10 # universal_newlines (y # xs)
      else x # universal_newlines (y # xs))"

fun lines_from :: "pystr \<Rightarrow> pystr \<Rightarrow> pystr list" where
  "lines_from cur [] = (if cur = [] then [] else [cur])"
| "lines_from cur (x # xs) =
     (if x = 10 then (cur @ [10]) # lines_from [] xs else lines_from (cur @ [x]) xs)"

definition file_lines :: "pystr \<Rightarrow> pystr list" where
  "file_lines content = lines_from [] (universal_newlines content)"

text \<open>\<^verbatim>\<open>s.strip()\<close> and \<^verbatim>\<open>s.strip(chars)\<close>.\<close>

definition strip_where :: "(nat \<Rightarrow> bool) \<Rightarrow> pystr \<Rightarrow> pystr" where
  "strip_where P s = rev (dropWhile P (rev (dropWhile P s)))"

definition py_strip :: "pystr \<Rightarrow> pystr" where
  "py_strip s = strip_where py_isspace s"

text \<open>
  The clip a manifest line names, as the cleanup reads it:
  \<^verbatim>\<open>os.path.join(output_dir, line[5:].strip().strip("'\""))\<close>.
\<close>

definition listed_path :: "pystr \<Rightarrow> pystr" where
  "listed_path line =
     path_join output_dir (strip_where (\<lambda>c. c = 39 \<or> c = 34) (py_strip (drop 5 line)))"

text \<open>
  What surrounds one call of \<^verbatim>\<open>merge_audio_files\<close>: the UUID and the timestamp it draws,
  how the three ffmpeg commands end, whether a failed command left its output file
  behind, the data written, and the paths on which \<^verbatim>\<open>os.remove\<close> raises \<^verbatim>\<open>OSError\<close>
  although the file exists.
\<close>

record merge_env =
  me_unique_id :: pystr
  me_timestamp :: nat
  me_version :: proc_result
  me_concat :: proc_result
  me_concat_wrote :: bool
  me_mp3 :: proc_result
  me_mp3_wrote :: bool
  me_wav_data :: pystr
  me_mp3_data :: pystr
  me_remove_fails :: "pystr \<Rightarrow> bool"

definition wav_name :: "merge_env \<Rightarrow> pystr" where
  "wav_name env = me_unique_id env @ str_of_nat (me_timestamp env) @ u ''.wav''"

definition mp3_name :: "merge_env \<Rightarrow> pystr" where
  "mp3_name env = me_unique_id env @ str_of_nat (me_timestamp env) @ u ''.mp3''"

text \<open>
  \<^verbatim>\<open>os.remove(path)\<close> inside a \<^verbatim>\<open>try\<close> whose \<^verbatim>\<open>OSError\<close> handler only prints: the file
  is gone afterwards unless the removal raised.
\<close>

definition remove_file :: "merge_env \<Rightarrow> pystr \<Rightarrow> filesystem \<Rightarrow> filesystem" where
  "remove_file env path fs =
     (if fs path = None \<or> me_remove_fails env path then fs else fs(path := None))"

text \<open>\<^verbatim>\<open>s.startswith(prefix)\<close>.\<close>

definition startswith :: "pystr \<Rightarrow> pystr \<Rightarrow> bool" where
  "startswith s pre = (take (length pre) s = pre)"

text \<open>The body of the cleanup loop for one line of the manifest.\<close>

definition remove_listed :: "merge_env \<Rightarrow> pystr \<Rightarrow> filesystem \<Rightarrow> filesystem" where
  "remove_listed env line fs =
     (if startswith line (u ''file '') then
        (let filepath = listed_path line
         in if fs filepath \<noteq> None then remove_file env filepath fs else fs)
      else fs)"

text \<open>
  The first part of the \<^verbatim>\<open>finally\<close> block of \<^verbatim>\<open>merge_audio_files\<close>: when the manifest
  exists, the clips its lines name are removed, then the manifest.
\<close>

definition cleanup_listed :: "merge_env \<Rightarrow> pystr \<Rightarrow> filesystem \<Rightarrow> filesystem" where
  "cleanup_listed env file_list_path fs =
     (case fs file_list_path of
        None \<Rightarrow> fs
      | Some content \<Rightarrow>
          remove_file env file_list_path
            (fold (remove_listed env) (file_lines content) fs))"

text \<open>The whole \<^verbatim>\<open>finally\<close> block: then the intermediate WAV file is removed.\<close>

definition cleanup :: "merge_env \<Rightarrow> pystr \<Rightarrow> filesystem \<Rightarrow> filesystem" where
  "cleanup env file_list_path fs =
     (let fs1 = cleanup_listed env file_list_path fs;
          output_audio_filepath_wav = path_join output_dir (wav_name env)
      in if fs1 output_audio_filepath_wav \<noteq> None
         then remove_file env output_audio_filepath_wav fs1 else fs1)"

text \<open>
  The \<^verbatim>\<open>try\<close> block: the concatenation into the WAV file and its conversion to MP3. It
  gives what the function returns or raises, and the files as the commands leave them.
\<close>

definition concat_and_convert :: "merge_env \<Rightarrow> filesystem \<Rightarrow> (exn + pystr) \<times> filesystem" where
  "concat_and_convert env fs =
     (let wav = path_join output_dir (wav_name env);
          mp3 = path_join output_dir (mp3_name env)
      in case me_concat env of
           NotFound \<Rightarrow> (Inl (FileNotFoundError (u ''ffmpeg'')), fs)
         | Failed \<Rightarrow>
             (Inl MergeError, if me_concat_wrote env then fs(wav \<mapsto> me_wav_data env) else fs)
         | Ok \<Rightarrow>
             (let fs1 = fs(wav \<mapsto> me_wav_data env)
              in case me_mp3 env of
                   NotFound \<Rightarrow> (Inl (FileNotFoundError (u ''ffmpeg'')), fs1)
                 | Failed \<Rightarrow>
                     (Inl MergeError,
                      if me_mp3_wrote env then fs1(mp3 \<mapsto> me_mp3_data env) else fs1)
                 | Ok \<Rightarrow> (Inr (mp3_name env), fs1(mp3 \<mapsto> me_mp3_data env))))"

text \<open>
  \<^verbatim>\<open>merge_audio_files(file_list_path)\<close>. The check that ffmpeg is installed stands before
  the \<^verbatim>\<open>try\<close>: when it raises, the \<^verbatim>\<open>finally\<close> block does not run.
\<close>

definition merge_audio_files ::
  "merge_env \<Rightarrow> filesystem \<Rightarrow> pystr \<Rightarrow> (exn + pystr) \<times> filesystem" where
  "merge_audio_files env fs file_list_path =
     (case me_version env of
        NotFound \<Rightarrow> (Inl FFmpegNotInstalled, fs)
      | Failed \<Rightarrow> (Inl CalledProcessError, fs)
      | Ok \<Rightarrow>
          (case concat_and_convert env fs of
             (r, fs1) \<Rightarrow> (r, cleanup env file_list_path fs1)))"

section \<open>JSON values and the decoder\<close>

text \<open>
  What \<^verbatim>\<open>json.JSONDecoder().raw_decode\<close> produces. The decoder belongs to Python's
  standard library, not to the program; it is modelled here as CPython implements it
  (strict mode, no hooks), because the scan of the script text depends on where a decode
  succeeds and where it ends. A JSON object becomes a dictionary: an association list
  in insertion order in which a repeated key keeps its place and takes the later value.
  A number with a fraction or an exponent is a float; it is held as the real number its
  literal denotes. Not modelled: the recursion limit for deeply nested input and the limit
  on the number of digits of an integer.
\<close>

datatype json =
    JNull
  | JBool bool
  | JInt int
  | JFloat real
  | JNaN
  | JInfinity bool
  | JStr pystr
  | JArr "json list"
  | JObj "(pystr \<times> json) list"

definition json_ws :: "nat \<Rightarrow> bool" where
  "json_ws c = (c = 32 \<or> c = 9 \<or> c = 10 \<or> c = 13)"

definition skip_ws :: "pystr \<Rightarrow> pystr" where
  "skip_ws s = dropWhile json_ws s"

definition is_digit :: "nat \<Rightarrow> bool" where
  "is_digit c = (48 \<le> c \<and> c \<le> 57)"

definition hex_value :: "nat \<Rightarrow> nat option" where
  "hex_value c =
     (if 48 \<le> c \<and> c \<le> 57 then Some (c - 48)
      else if 97 \<le> c \<and> c \<le> 102 then Some (c - 87)
      else if 65 \<le> c \<and> c \<le> 70 then Some (c - 55)
      else None)"

text \<open>The four hexadecimal digits of a \<^verbatim>\<open>\uXXXX\<close> escape.\<close>

definition hex4 :: "pystr \<Rightarrow> nat option" where
  "hex4 xs =
     (case map hex_value xs of
        [Some a, Some b, Some c, Some d] \<Rightarrow> Some (((a * 16 + b) * 16 + c) * 16 + d)
      | _ \<Rightarrow> None)"

text \<open>The one-character escapes: \<^verbatim>\<open>\" \\ \/ \b \f \n \r \t\<close>.\<close>

definition backslash :: "nat \<Rightarrow> nat option" where
  "backslash e =
     (if e = 34 then Some 34 else if e = 92 then Some 92 else if e = 47 then Some 47
      else if e = 98 then Some 8 else if e = 102 then Some 12 else if e = 110 then Some 10
      else if e = 114 then Some 13 else if e = 116 then Some 9 else None)"

text \<open>
  \<^verbatim>\<open>scanstring\<close>, from the character after the opening quote: the decoded string and
  what follows the closing quote. A high surrogate followed by a low surrogate escape is
  joined into one code point.
\<close>

fun scanstring :: "pystr \<Rightarrow> pystr \<Rightarrow> (pystr \<times> pystr) option" where
  "scanstring acc [] = None"
| "scanstring acc (c # cs) =
     (if c = 34 then Some (acc, cs)
      else if c < 32 then None
      else if c \<noteq> 92 then scanstring (acc @ [c]) cs
      else
        (case cs of
           [] \<Rightarrow> None
         | e # r \<Rightarrow>
             if e \<noteq> 117 then
               (case backslash e of
                  None \<Rightarrow> None
                | Some ch \<Rightarrow> scanstring (acc @ [ch]) r)
             else
               (case hex4 (take 4 r) of
                  None \<Rightarrow> None
                | Some uni \<Rightarrow>
                    if 55296 \<le> uni \<and> uni \<le> 56319 \<and> take 2 (drop 4 r) = [92, 117] then
                      (case hex4 (take 4 (drop 6 r)) of
                         None \<Rightarrow> None
                       | Some uni2 \<Rightarrow>
                           if 56320 \<le> uni2 \<and> uni2 \<le> 57343 then
                             scanstring
                               (acc @ [65536 + ((uni - 55296) * 1024 + (uni2 - 56320))])
                               (drop 10 r)
                           else scanstring (acc @ [uni]) (drop 4 r))
                    else scanstring (acc @ [uni]) (drop 4 r))))"

text \<open>The value of a string of decimal digits.\<close>

definition digits_value :: "pystr \<Rightarrow> nat" where
  "digits_value ds = foldl (\<lambda>n d. 10 * n + (d - 48)) 0 ds"

text \<open>
  A number at the head of the text: \<^verbatim>\<open>-?(0|[1-9][0-9]*)(\.[0-9]+)?([eE][-+]?[0-9]+)?\<close>,
  an integer when it has neither fraction nor exponent.
\<close>

definition match_number :: "pystr \<Rightarrow> (json \<times> pystr) option" where
  "match_number s =
     (let neg = (s \<noteq> [] \<and> hd s = 45);
          s1 = (if neg then tl s else s)
      in if s1 = [] \<or> \<not> is_digit (hd s1) then None
         else
           (let ints = (if hd s1 = 48 then [48] else takeWhile is_digit s1);
                s2 = drop (length ints) s1;
                has_frac = (s2 \<noteq> [] \<and> hd s2 = 46 \<and> tl s2 \<noteq> [] \<and> is_digit (hd (tl s2)));
                fracs = (if has_frac then takeWhile is_digit (tl s2) else []);
                s3 = (if has_frac then drop (Suc (length fracs)) s2 else s2);
                e1 = (if s3 \<noteq> [] \<and> (hd s3 = 101 \<or> hd s3 = 69) then tl s3 else []);
                eneg = (e1 \<noteq> [] \<and> hd e1 = 45);
                e2 = (if e1 \<noteq> [] \<and> (hd e1 = 45 \<or> hd e1 = 43) then tl e1 else e1);
                has_exp = (e2 \<noteq> [] \<and> is_digit (hd e2));
                exps = (if has_exp then takeWhile is_digit e2 else []);
                s4 = (if has_exp then drop (length exps) e2 else s3)
            in if \<not> has_frac \<and> \<not> has_exp then
                 Some (JInt ((if neg then -1 else 1) * int (digits_value ints)), s4)
               else
                 Some (JFloat
                         ((if neg then -1 else 1)
                          * (real (digits_value ints)
                             + real (digits_value fracs) / 10 ^ length fracs)
                          * (if eneg then 1 / 10 ^ digits_value exps
                             else 10 ^ digits_value exps)),
                       s4)))"

text \<open>
  The scanner. Its first argument bounds the number of nested and successive values;
  every call consumes a character before the next one, so the length of the text is
  never exhausted. \<open>scan_once\<close> reads one value at the head of the text (no whitespace
  is skipped before it); \<open>parse_members\<close> reads the members of an object from a key on,
  \<open>parse_elements\<close> the elements of an array.
\<close>

fun scan_once :: "nat \<Rightarrow> pystr \<Rightarrow> (json \<times> pystr) option"
  and parse_members :: "nat \<Rightarrow> (pystr \<times> json) list \<Rightarrow> pystr \<Rightarrow> ((pystr \<times> json) list \<times> pystr) option"
  and parse_elements :: "nat \<Rightarrow> json list \<Rightarrow> pystr \<Rightarrow> (json list \<times> pystr) option" where
  "scan_once 0 s = None"
| "scan_once (Suc n) [] = None"
| "scan_once (Suc n) (c # cs) =
     (if c = 34 then
        (case scanstring [] cs of
           None \<Rightarrow> None
         | Some (str, rest) \<Rightarrow> Some (JStr str, rest))
      else if c = 123 then
        (if skip_ws cs \<noteq> [] \<and> hd (skip_ws cs) = 125 then Some (JObj [], tl (skip_ws cs))
         else
           (case parse_members n [] (skip_ws cs) of
              None \<Rightarrow> None
            | Some (pairs, rest) \<Rightarrow> Some (JObj pairs, rest)))
      else if c = 91 then
        (if skip_ws cs \<noteq> [] \<and> hd (skip_ws cs) = 93 then Some (JArr [], tl (skip_ws cs))
         else
           (case parse_elements n [] (skip_ws cs) of
              None \<Rightarrow> None
            | Some (elems, rest) \<Rightarrow> Some (JArr elems, rest)))
      else if startswith (c # cs) (u ''null'') then Some (JNull, drop 4 (c # cs))
      else if startswith (c # cs) (u ''true'') then Some (JBool True, drop 4 (c # cs))
      else if startswith (c # cs) (u ''false'') then Some (JBool False, drop 5 (c # cs))
      else if startswith (c # cs) (u ''NaN'') then Some (JNaN, drop 3 (c # cs))
      else if startswith (c # cs) (u ''Infinity'') then Some (JInfinity False, drop 8 (c # cs))
      else if startswith (c # cs) (u ''-Infinity'') then Some (JInfinity True, drop 9 (c # cs))
      else match_number (c # cs))"
| "parse_members 0 acc s = None"
| "parse_members (Suc n) acc s =
     (if s = [] \<or> hd s \<noteq> 34 then None
      else
        (case scanstring [] (tl s) of
           None \<Rightarrow> None
         | Some (key, r1) \<Rightarrow>
             if skip_ws r1 = [] \<or> hd (skip_ws r1) \<noteq> 58 then None
             else
               (case scan_once n (skip_ws (tl (skip_ws r1))) of
                  None \<Rightarrow> None
                | Some (v, r2) \<Rightarrow>
                    if skip_ws r2 \<noteq> [] \<and> hd (skip_ws r2) = 125 then
                      Some (AList.update key v acc, tl (skip_ws r2))
                    else if skip_ws r2 \<noteq> [] \<and> hd (skip_ws r2) = 44 then
                      parse_members n (AList.update key v acc) (skip_ws (tl (skip_ws r2)))
                    else None)))"
| "parse_elements 0 acc s = None"
| "parse_elements (Suc n) acc s =
     (case scan_once n s of
        None \<Rightarrow> None
      | Some (v, r) \<Rightarrow>
          if skip_ws r \<noteq> [] \<and> hd (skip_ws r) = 93 then Some (acc @ [v], tl (skip_ws r))
          else if skip_ws r \<noteq> [] \<and> hd (skip_ws r) = 44 then
            parse_elements n (acc @ [v]) (skip_ws (tl (skip_ws r)))
          else None)"

text \<open>
  \<^verbatim>\<open>raw_decode(s)\<close>: the value at the head of \<open>s\<close> and the index where it ends, or
  \<open>None\<close> for \<^verbatim>\<open>JSONDecodeError\<close>.
\<close>

definition raw_decode :: "pystr \<Rightarrow> (json \<times> nat) option" where
  "raw_decode s =
     (case scan_once (Suc (length s)) s of
        None \<Rightarrow> None
      | Some (obj, rest) \<Rightarrow> Some (obj, length s - length rest))"

text \<open>
  \<^verbatim>\<open>json.loads(s)\<close>: whitespace, one value, whitespace, and nothing else.
\<close>

definition json_loads :: "pystr \<Rightarrow> json option" where
  "json_loads s =
     (case scan_once (Suc (length s)) (skip_ws s) of
        None \<Rightarrow> None
      | Some (obj, rest) \<Rightarrow> if skip_ws rest = [] then Some obj else None)"

section \<open>Python's operations on decoded values\<close>

text \<open>Truthiness, \<^verbatim>\<open>len\<close>, iteration, \<^verbatim>\<open>in\<close> and \<^verbatim>\<open>dict.get\<close> on a decoded value.\<close>

fun json_truthy :: "json \<Rightarrow> bool" where
  "json_truthy JNull = False"
| "json_truthy (JBool b) = b"
| "json_truthy (JInt n) = (n \<noteq> 0)"
| "json_truthy (JFloat x) = (x \<noteq> 0)"
| "json_truthy JNaN = True"
| "json_truthy (JInfinity neg) = True"
| "json_truthy (JStr s) = (s \<noteq> [])"
| "json_truthy (JArr xs) = (xs \<noteq> [])"
| "json_truthy (JObj ms) = (ms \<noteq> [])"

fun py_len :: "json \<Rightarrow> exn + nat" where
  "py_len (JStr s) = Inr (length s)"
| "py_len (JArr xs) = Inr (length xs)"
| "py_len (JObj ms) = Inr (length ms)"
| "py_len v = Inl TypeError"

fun json_iter :: "json \<Rightarrow> exn + json list" where
  "json_iter (JArr xs) = Inr xs"
| "json_iter (JObj ms) = Inr (map (\<lambda>(k, v). JStr k) ms)"
| "json_iter (JStr s) = Inr (map (\<lambda>c. JStr [c]) s)"
| "json_iter v = Inl TypeError"

text \<open>
  \<^verbatim>\<open>key in v\<close> for a string \<open>key\<close>: a key of a dictionary, a substring of a string, an
  element of a list; a \<^verbatim>\<open>TypeError\<close> on anything else.
\<close>

fun json_contains :: "pystr \<Rightarrow> json \<Rightarrow> exn + bool" where
  "json_contains key (JObj ms) = Inr (map_of ms key \<noteq> None)"
| "json_contains key (JStr s) = Inr (sublist key s)"
| "json_contains key (JArr xs) = Inr (JStr key \<in> set xs)"
| "json_contains key v = Inl TypeError"

text \<open>\<^verbatim>\<open>isinstance(obj, dict) and "podcast_transcripts" in obj\<close>.\<close>

fun has_transcripts_key :: "json \<Rightarrow> bool" where
  "has_transcripts_key (JObj ms) = (map_of ms (u ''podcast_transcripts'') \<noteq> None)"
| "has_transcripts_key v = False"

text \<open>\<^verbatim>\<open>obj.get("podcast_transcripts")\<close> on a dictionary.\<close>

fun get_transcripts :: "json \<Rightarrow> json" where
  "get_transcripts (JObj ms) =
     (case map_of ms (u ''podcast_transcripts'') of None \<Rightarrow> JNull | Some v \<Rightarrow> v)"
| "get_transcripts v = JNull"

section \<open>Extraction of the script\<close>

text \<open>\<^verbatim>\<open>s.find(c, start)\<close> for a single character: \<open>None\<close> stands for \<open>-1\<close>.\<close>

fun find_from :: "nat \<Rightarrow> nat \<Rightarrow> pystr \<Rightarrow> nat option" where
  "find_from c i [] = None"
| "find_from c i (x # xs) = (if x = c then Some i else find_from c (Suc i) xs)"

definition str_find :: "pystr \<Rightarrow> nat \<Rightarrow> nat \<Rightarrow> nat option" where
  "str_find s c start = find_from c start (drop start s)"

text \<open>
  The scan of \<^verbatim>\<open>_generate_podcast_script\<close> over the response text, from index \<open>idx\<close>:
  \<^verbatim>\<open>while idx < len(podscript_json_str)\<close>. The loop gives \<open>Some (Some (obj, text))\<close>
  when it breaks with the script and the text it was decoded from, and \<open>Some None\<close> when
  it ends with \<^verbatim>\<open>podcast_script = None\<close>; the value \<open>None\<close> stands for a loop that does
  not end.
\<close>

partial_function (option) find_script :: "pystr \<Rightarrow> nat \<Rightarrow> (json \<times> pystr) option option" where
  "find_script s idx =
     (if idx < length s then
        (case raw_decode (drop idx s) of
           Some (obj, e) \<Rightarrow>
             if has_transcripts_key obj then Some (Some (obj, take e (drop idx s)))
             else find_script s (idx + e)
         | None \<Rightarrow>
             (case str_find s 123 (idx + 1) of
                Some next_brace \<Rightarrow> find_script s next_brace
              | None \<Rightarrow> Some None))
      else Some None)"

section \<open>The quality gate\<close>

text \<open>
  The loop of \<^verbatim>\<open>_is_content_quality_acceptable\<close> over the transcripts. An entry that is
  not a dictionary either fails a membership test or has no \<^verbatim>\<open>get\<close>; a dialog that is
  not a string has no \<^verbatim>\<open>strip\<close>. Those exceptions are not caught by the gate.
\<close>

fun check_transcripts :: "json list \<Rightarrow> exn + bool" where
  "check_transcripts [] = Inr True"
| "check_transcripts (transcript # rest) =
     (case json_contains (u ''speaker_id'') transcript of
        Inl e \<Rightarrow> Inl e
      | Inr False \<Rightarrow> Inr False
      | Inr True \<Rightarrow>
          (case json_contains (u ''dialog'') transcript of
             Inl e \<Rightarrow> Inl e
           | Inr False \<Rightarrow> Inr False
           | Inr True \<Rightarrow>
               (case transcript of
                  JObj ms \<Rightarrow>
                    (case map_of ms (u ''dialog'') of
                       Some (JStr d) \<Rightarrow>
                         if py_strip d = [] then Inr False else check_transcripts rest
                     | _ \<Rightarrow> Inl AttributeError)
                | _ \<Rightarrow> Inl AttributeError)))"

text \<open>
  \<^verbatim>\<open>_is_content_quality_acceptable(content, title, tags, content_type)\<close>. A
  \<^verbatim>\<open>JSONDecodeError\<close> of \<^verbatim>\<open>json.loads\<close> is caught and gives \<^verbatim>\<open>False\<close>.
\<close>

definition is_content_quality_acceptable ::
  "pystr \<Rightarrow> pystr \<Rightarrow> pystr \<Rightarrow> pystr \<Rightarrow> exn + bool" where
  "is_content_quality_acceptable content title tags content_type =
     (if content_type = u ''overview'' then
        Inr (\<not> (content = [] \<or> length (py_strip content) < 20)
             \<and> \<not> (title = [] \<or> length (py_strip title) < 2)
             \<and> \<not> (tags = [] \<or> length (py_strip tags) < 1))
      else if content_type = u ''script'' then
        (case json_loads content of
           None \<Rightarrow> Inr False
         | Some podcast_script \<Rightarrow>
             (case json_contains (u ''podcast_transcripts'') podcast_script of
                Inl e \<Rightarrow> Inl e
              | Inr False \<Rightarrow> Inr False
              | Inr True \<Rightarrow>
                  (case podcast_script of
                     JObj ms \<Rightarrow>
                       (let transcripts = get_transcripts podcast_script
                        in if \<not> json_truthy transcripts then Inr False
                           else
                             (case py_len transcripts of
                                Inl e \<Rightarrow> Inl e
                              | Inr n \<Rightarrow>
                                  if n = 0 then Inr False
                                  else
                                    (case json_iter transcripts of
                                       Inl e \<Rightarrow> Inl e
                                     | Inr ts \<Rightarrow> check_transcripts ts)))
                   | _ \<Rightarrow> Inl AttributeError)))
      else Inr False)"

section \<open>Generation of the script, with retries\<close>

text \<open>
  What the upstream client does in one attempt: it returns the response text, or it
  raises a \<^verbatim>\<open>JSONDecodeError\<close>, or another exception.
\<close>

datatype up_outcome = UpText pystr | UpJSONDecodeError pystr | UpException pystr

text \<open>
  How the body of the \<^verbatim>\<open>try\<close> ends once the response text is there: it returns the
  script; or it reaches one of the three branches that count a failed attempt and, on the
  last attempt, raise the \<^verbatim>\<open>ValueError\<close> carried here; or an exception escapes it.
\<close>

datatype attempt_result = Accepted json | Rejected exn | Crashed exn

definition response_result :: "pystr \<Rightarrow> attempt_result option" where
  "response_result podscript_json_str =
     (case find_script podscript_json_str 0 of
        None \<Rightarrow> None
      | Some None \<Rightarrow> Some (Rejected (ScriptNotFound podscript_json_str))
      | Some (Some (podcast_script, valid_json_str)) \<Rightarrow>
          (let transcripts = get_transcripts podcast_script
           in case py_len (if json_truthy transcripts then transcripts else JArr []) of
                Inl e \<Rightarrow> Some (Crashed e)
              | Inr n \<Rightarrow>
                  if \<not> json_truthy transcripts then Some (Rejected ScriptEmpty)
                  else
                    (case is_content_quality_acceptable valid_json_str [] [] (u ''script'') of
                       Inl e \<Rightarrow> Some (Crashed e)
                     | Inr True \<Rightarrow> Some (Accepted podcast_script)
                     | Inr False \<Rightarrow> Some (Rejected (ScriptBelowQuality 3)))))"

datatype script_event = Request nat | Wait nat

text \<open>
  The loop \<^verbatim>\<open>while attempt < max_retries\<close> of \<^verbatim>\<open>_generate_podcast_script\<close>, with
  \<^verbatim>\<open>max_retries = 3\<close>, from \<open>attempt\<close> on; \<open>upstream k\<close> is what the client does in the
  request made when \<open>attempt = k\<close>. It gives what the function returns or raises and the
  requests and sleeps it made. The \<^verbatim>\<open>ValueError\<close> of a last failed attempt is raised
  inside the \<^verbatim>\<open>try\<close>, so the handler for \<^verbatim>\<open>Exception\<close> catches it and raises the
  \<^verbatim>\<open>RuntimeError\<close> that wraps it. Leaving the loop without a \<^verbatim>\<open>return\<close> returns
  \<^verbatim>\<open>None\<close>.
\<close>

function script_attempts ::
  "(nat \<Rightarrow> up_outcome) \<Rightarrow> nat \<Rightarrow> ((exn + json option) \<times> script_event list) option" where
  "script_attempts upstream attempt =
     (if attempt < 3 then
        (case upstream attempt of
           UpJSONDecodeError m \<Rightarrow>
             if attempt + 1 \<ge> 3 then Some (Inl (ScriptDecodeError m []), [Request attempt])
             else
               (case script_attempts upstream (attempt + 1) of
                  None \<Rightarrow> None
                | Some (r, evs) \<Rightarrow> Some (r, Request attempt # Wait (1 * (attempt + 1)) # evs))
         | UpException m \<Rightarrow>
             if attempt + 1 \<ge> 3 then
               Some (Inl (ScriptGenerationError 3 (UpstreamError m)), [Request attempt])
             else
               (case script_attempts upstream (attempt + 1) of
                  None \<Rightarrow> None
                | Some (r, evs) \<Rightarrow> Some (r, Request attempt # Wait (1 * (attempt + 1)) # evs))
         | UpText podscript_json_str \<Rightarrow>
             (case response_result podscript_json_str of
                None \<Rightarrow> None
              | Some (Accepted podcast_script) \<Rightarrow>
                  Some (Inr (Some podcast_script), [Request attempt])
              | Some (Rejected e) \<Rightarrow>
                  if attempt + 1 \<ge> 3 then
                    Some (Inl (ScriptGenerationError 3 e), [Request attempt])
                  else
                    (case script_attempts upstream (attempt + 1) of
                       None \<Rightarrow> None
                     | Some (r, evs) \<Rightarrow> Some (r, Request attempt # evs))
              | Some (Crashed e) \<Rightarrow>
                  if attempt + 1 \<ge> 3 then
                    Some (Inl (ScriptGenerationError 3 e), [Request attempt])
                  else
                    (case script_attempts upstream (attempt + 1) of
                       None \<Rightarrow> None
                     | Some (r, evs) \<Rightarrow>
                         Some (r, Request attempt # Wait (1 * (attempt + 1)) # evs))))
      else Some (Inr None, []))"
  by pat_completeness auto
termination
  by (relation "measure (\<lambda>(upstream, attempt). 3 - attempt)") auto

declare script_attempts.simps [simp del]

text \<open>\<^verbatim>\<open>_generate_podcast_script\<close>: the loop from \<^verbatim>\<open>attempt = 0\<close>.\<close>

definition generate_podcast_script ::
  "(nat \<Rightarrow> up_outcome) \<Rightarrow> ((exn + json option) \<times> script_event list) option" where
  "generate_podcast_script upstream = script_attempts upstream 0"

text \<open>The raw response text that the message of an exception interpolates, if any.\<close>

fun raw_in_message :: "exn \<Rightarrow> pystr option" where
  "raw_in_message (ScriptNotFound raw) = Some raw"
| "raw_in_message (ScriptDecodeError m raw) = Some raw"
| "raw_in_message (ScriptGenerationError n e) = raw_in_message e"
| "raw_in_message e = None"

text \<open>The requests and the sleeps of a run.\<close>

fun requests :: "script_event list \<Rightarrow> nat list" where
  "requests [] = []"
| "requests (Request k # evs) = k # requests evs"
| "requests (Wait n # evs) = requests evs"

fun wait_after :: "nat \<Rightarrow> script_event list \<Rightarrow> nat option" where
  "wait_after k [] = None"
| "wait_after k [e] = None"
| "wait_after k (e # e' # evs) =
     (if e = Request k then (case e' of Wait n \<Rightarrow> Some n | Request j \<Rightarrow> None)
      else wait_after k (e' # evs))"

section \<open>The pipeline\<close>

text \<open>
  The stages of \<^verbatim>\<open>generate_podcast_audio_api\<close> from the prepared configuration on:
  the speaker briefing (\<^verbatim>\<open>_prepare_podcast_prompts\<close>), the upstream generation of the
  script (\<open>upstream\<close>, a collaborator, given the briefing), the adapters
  (\<open>adapters_init\<close>, what \<^verbatim>\<open>_initialize_tts_adapter\<close> returns or raises), synthesis, the
  manifest and the concatenation. It gives what the run returns or raises, the backend
  calls and sleeps of the tasks whose results were consumed (all the calls of a run that
  is not aborted; no task exists before the synthesis stage), and the files afterwards.
\<close>

definition run_pipeline ::
  "(nat \<Rightarrow> bool) \<Rightarrow> config_data \<Rightarrow> (pystr \<Rightarrow> exn + podcast_script)
     \<Rightarrow> (exn + (pystr \<rightharpoonup> adapter)) \<Rightarrow> nat list \<Rightarrow> future_state list \<Rightarrow> (pystr \<Rightarrow> trim_env)
     \<Rightarrow> pystr \<Rightarrow> merge_env \<Rightarrow> filesystem \<Rightarrow> (exn + pystr) \<times> event list \<times> filesystem" where
  "run_pipeline re_w cfg upstream adapters_init order states envs unique_id menv fs =
     (case generate_speaker_id_text (config_pod_users cfg) (config_voices cfg) of
        Inl e \<Rightarrow> (Inl e, [], fs)
      | Inr speaker_id_info \<Rightarrow>
          (case upstream speaker_id_info of
             Inl e \<Rightarrow> (Inl e, [], fs)
           | Inr script \<Rightarrow>
               (case adapters_init of
                  Inl e \<Rightarrow> (Inl e, [], fs)
                | Inr tts_adapter \<Rightarrow>
                    (let rep = generate_all_audio_files re_w script cfg tts_adapter order
                                 states (trim_call envs) True
                     in case outcome rep of
                          Inl e \<Rightarrow> (Inl e, task_events rep, fs)
                        | Inr audio_files \<Rightarrow>
                            (case create_ffmpeg_file_list fs unique_id audio_files
                                    (length (case podcast_transcripts script of
                                               None \<Rightarrow> [] | Some ts \<Rightarrow> ts)) of
                               Inl e \<Rightarrow> (Inl e, task_events rep, fs)
                             | Inr (file_list_path, fs1) \<Rightarrow>
                                 (case merge_audio_files menv fs1 file_list_path of
                                    (r, fs2) \<Rightarrow> (r, task_events rep, fs2)))))))"

section \<open>Concrete inputs\<close>





definition w_ok :: adapter where
  "w_ok req k = Returned (Some (u ''output/'' @ c_text req @ u ''.mp3''))"

definition w_cfg2 :: config_data where
  "w_cfg2 = \<lparr>podUsers = Some [\<lparr>pu_code = Some (u ''v1''), pu_owner = Some (u ''edge-tts''),
                                pu_role = None\<rparr>,
                              \<lparr>pu_code = Some (u ''v2''), pu_owner = Some (u ''edge-tts''),
                                pu_role = None\<rparr>],
             voices = Some [\<lparr>v_code = Some (u ''v1''), v_usedname = None, v_alias = None,
                              v_name = Some (u ''Ann''), v_volume_adjustment = None,
                              v_speed_adjustment = None\<rparr>,
                            \<lparr>v_code = Some (u ''v2''), v_usedname = None, v_alias = None,
                              v_name = Some (u ''Bob''), v_volume_adjustment = None,
                              v_speed_adjustment = None\<rparr>],
             tts_provider = Some (u ''edge-tts''), tts_max_retries = None\<rparr>"

definition w_script :: podcast_script where
  "w_script = \<lparr>podcast_transcripts =
       Some [\<lparr>speaker_id = 0, dialog = u ''a''\<rparr>, \<lparr>speaker_id = 1, dialog = u ''b''\<rparr>]\<rparr>"

definition w_word :: "nat \<Rightarrow> bool" where
  "w_word c = (97 \<le> c \<and> c \<le> 122)"


definition w_manifest :: pystr where
  "w_manifest = file_line (u ''output/trimmed_a.mp3'') @ file_line (u ''output/trimmed_b.mp3'')"

definition w_fs :: filesystem where
  "w_fs = [u ''output/file_list_0a.txt'' \<mapsto> w_manifest,
           u ''output/trimmed_a.mp3'' \<mapsto> u ''A'',
           u ''output/trimmed_b.mp3'' \<mapsto> u ''B'']"

definition w_menv :: merge_env where
  "w_menv = \<lparr>me_unique_id = u ''9f'', me_timestamp = 17, me_version = Ok,
             me_concat = Failed, me_concat_wrote = True, me_mp3 = Ok, me_mp3_wrote = False,
             me_wav_data = u ''W'', me_mp3_data = u ''M'', me_remove_fails = (\<lambda>p. False)\<rparr>"

definition w_script3 :: podcast_script where
  "w_script3 = \<lparr>podcast_transcripts =
       Some [\<lparr>speaker_id = 0, dialog = u ''a''\<rparr>, \<lparr>speaker_id = 1, dialog = u ''b''\<rparr>,
             \<lparr>speaker_id = 0, dialog = u ''c''\<rparr>]\<rparr>"

definition w_half :: adapter where
  "w_half req k =
     (if c_text req = u ''b'' then RaisedException (u ''boom'')
      else Returned (Some (u ''output/'' @ c_text req @ u ''.mp3'')))"



section \<open>Verified properties\<close>

lemma enumerates_set_Nil: "enumerates_set f \<Longrightarrow> f [] = []"
  by (metis enumerates_set_def set_empty)

lemma enumerates_set_nonempty: "enumerates_set f \<Longrightarrow> xs \<noteq> [] \<Longrightarrow> f xs \<noteq> []"
  by (metis enumerates_set_def set_empty)

lemma owners_of_empty_iff:
  "owners_of us = [] \<longleftrightarrow> (\<forall>user \<in> set us. \<not> truthy (pu_owner user))"
  by (simp add: owners_of_def filter_empty_conv)

text \<open>
  C10. Loading from an explicit path: when no roster entry carries a non-empty owner, the
  backend name is the constant \<^verbatim>\<open>edge-tts\<close>, whatever the path is; when some entry names an
  owner, the backend name is the comma-joined list of the distinct owners (in the order
  the set enumerates them).
\<close>

theorem load_configuration_path_provider:
  assumes "enumerates_set list_set"
    and "load_json_config config_path = Inr cfg"
  shows "((\<forall>user \<in> set (roster_of cfg pod_users). \<not> truthy (pu_owner user)) \<longrightarrow>
            load_configuration_path load_json_config list_set config_path pod_users
              = Inr (cfg\<lparr>tts_provider := Some (u ''edge-tts'')\<rparr>))
       \<and> ((\<exists>user \<in> set (roster_of cfg pod_users). truthy (pu_owner user)) \<longrightarrow>
            (\<exists>owners. distinct owners
               \<and> set owners = {the (pu_owner user) | user.
                     user \<in> set (roster_of cfg pod_users) \<and> truthy (pu_owner user)}
               \<and> load_configuration_path load_json_config list_set config_path pod_users
                   = Inr (cfg\<lparr>tts_provider := Some (str_join (u '','') owners)\<rparr>)))"
proof (intro conjI impI)
  assume none: "\<forall>user \<in> set (roster_of cfg pod_users). \<not> truthy (pu_owner user)"
  then have "owners_of (roster_of cfg pod_users) = []"
    by (simp add: owners_of_empty_iff)
  then show "load_configuration_path load_json_config list_set config_path pod_users
              = Inr (cfg\<lparr>tts_provider := Some (u ''edge-tts'')\<rparr>)"
    using assms by (simp add: load_configuration_path_def Let_def enumerates_set_Nil)
next
  assume some: "\<exists>user \<in> set (roster_of cfg pod_users). truthy (pu_owner user)"
  let ?us = "roster_of cfg pod_users"
  let ?os = "list_set (owners_of ?us)"
  from some have ne: "owners_of ?us \<noteq> []" "?us \<noteq> []"
    by (auto simp: owners_of_empty_iff)
  then have "?os \<noteq> []"
    using assms(1) by (simp add: enumerates_set_nonempty)
  then have res: "load_configuration_path load_json_config list_set config_path pod_users
      = Inr (cfg\<lparr>tts_provider := Some (str_join (u '','') ?os)\<rparr>)"
    using assms(2) ne by (simp add: load_configuration_path_def Let_def)
  have "distinct ?os" "set ?os = set (owners_of ?us)"
    using assms(1) by (simp_all add: enumerates_set_def)
  moreover have "set (owners_of ?us)
      = {the (pu_owner user) | user. user \<in> set ?us \<and> truthy (pu_owner user)}"
    by (auto simp: owners_of_def)
  ultimately show "\<exists>owners. distinct owners
      \<and> set owners = {the (pu_owner user) | user. user \<in> set ?us \<and> truthy (pu_owner user)}
      \<and> load_configuration_path load_json_config list_set config_path pod_users
          = Inr (cfg\<lparr>tts_provider := Some (str_join (u '','') owners)\<rparr>)"
    using res by blast
qed

theorem load_configuration_path_provider_witness:
  "load_configuration_path
     (\<lambda>p. Inr \<lparr>podUsers = None, voices = None, tts_provider = None, tts_max_retries = None\<rparr>)
     remdups (u ''../config/fish-audio.json'')
     (Some [\<lparr>pu_code = Some (u ''v1''), pu_owner = None, pu_role = None\<rparr>,
            \<lparr>pu_code = Some (u ''v2''), pu_owner = Some [], pu_role = None\<rparr>])
   = Inr \<lparr>podUsers = None, voices = None, tts_provider = Some (u ''edge-tts''),
          tts_max_retries = None\<rparr>"
  using load_configuration_path_provider
    [of remdups
        "\<lambda>p. Inr \<lparr>podUsers = None, voices = None, tts_provider = None, tts_max_retries = None\<rparr>"
        "u ''../config/fish-audio.json''"
        "\<lparr>podUsers = None, voices = None, tts_provider = None, tts_max_retries = None\<rparr>"
        "Some [\<lparr>pu_code = Some (u ''v1''), pu_owner = None, pu_role = None\<rparr>,
               \<lparr>pu_code = Some (u ''v2''), pu_owner = Some [], pu_role = None\<rparr>]"]
  by (simp add: enumerates_set_def roster_of_def)

subsection \<open>The retry loop of one utterance\<close>











subsection \<open>Collection in index order\<close>

lemma consume_results_no_failure:
  "\<forall>i \<in> set order. item_failure result trim i = None \<Longrightarrow>
   consume_results result trim order d = (None, foldl (collected result) d order, order)"
proof (induction order arbitrary: d)
  case Nil
  then show ?case by simp
next
  case (Cons i rest)
  then have i: "item_failure result trim i = None"
    and rest: "\<forall>j \<in> set rest. item_failure result trim j = None" by simp_all
  show ?case
  proof (cases "result i")
    case (Inl e)
    with i show ?thesis by (simp add: item_failure_def)
  next
    case (Inr original)
    show ?thesis
    proof (cases "truthy original")
      case True
      then obtain p where p: "original = Some p" "p \<noteq> []" by (cases original) auto
      with i Inr have "trim p (trimmed_path p) = None" by (simp add: item_failure_def)
      moreover have "collected result d i = AList.update i (trimmed_path p) d"
        using Inr p by (simp add: collected_def)
      ultimately show ?thesis using Inr p Cons.IH[OF rest] by simp
    next
      case False
      then have "collected result d i = d"
        using Inr by (cases original) (auto simp: collected_def)
      with Inr False Cons.IH[OF rest] show ?thesis by simp
    qed
  qed
qed

lemma consume_results_first_failure:
  assumes "order = pre @ k # post"
    and "\<forall>i \<in> set pre. item_failure result trim i = None"
    and "item_failure result trim k = Some e"
  shows "consume_results result trim order d
           = (Some (ItemError k e), foldl (collected result) d pre, pre @ [k])"
  using assms
proof (induction pre arbitrary: d order)
  case Nil
  then show ?case
    by (cases "result k") (auto simp: item_failure_def split: if_splits)
next
  case (Cons i pre)
  then have i: "item_failure result trim i = None"
    and rest: "\<forall>j \<in> set pre. item_failure result trim j = None" by simp_all
  have ih: "consume_results result trim (pre @ k # post) d'
           = (Some (ItemError k e), foldl (collected result) d' pre, pre @ [k])" for d'
    using Cons.IH[OF refl rest Cons.prems(3)] .
  show ?case
  proof (cases "result i")
    case (Inl e')
    with i show ?thesis by (simp add: item_failure_def)
  next
    case (Inr original)
    show ?thesis
    proof (cases "truthy original")
      case True
      then obtain p where p: "original = Some p" "p \<noteq> []" by (cases original) auto
      with i Inr have "trim p (trimmed_path p) = None" by (simp add: item_failure_def)
      moreover have "collected result d i = AList.update i (trimmed_path p) d"
        using Inr p by (simp add: collected_def)
      ultimately show ?thesis using Inr p ih Cons.prems(1) by simp
    next
      case False
      then have "collected result d i = d"
        using Inr by (cases original) (auto simp: collected_def)
      with Inr False ih Cons.prems(1) show ?thesis by simp
    qed
  qed
qed

lemma collected_success:
  "result i = Inr (Some p) \<Longrightarrow> p \<noteq> [] \<Longrightarrow> collected result d i = AList.update i (trimmed_path p) d"
  by (simp add: collected_def)

lemma foldl_collected_props:
  assumes "\<forall>i \<in> set order. result i = Inr (Some (raw i)) \<and> raw i \<noteq> []"
    and "distinct (map fst d)"
  shows "distinct (map fst (foldl (collected result) d order))
       \<and> fst ` set (foldl (collected result) d order) = fst ` set d \<union> set order
       \<and> (\<forall>i \<in> set order. map_of (foldl (collected result) d order) i = Some (trimmed_path (raw i)))"
  using assms
proof (induction order arbitrary: d rule: rev_induct)
  case Nil
  then show ?case by simp
next
  case (snoc i order)
  let ?d = "foldl (collected result) d order"
  from snoc.prems have r: "result i = Inr (Some (raw i))" "raw i \<noteq> []" by simp_all
  from snoc.IH[of d] snoc.prems
  have ih: "distinct (map fst ?d)" "fst ` set ?d = fst ` set d \<union> set order"
    "\<forall>j \<in> set order. map_of ?d j = Some (trimmed_path (raw j))" by simp_all
  have step: "foldl (collected result) d (order @ [i]) = AList.update i (trimmed_path (raw i)) ?d"
  proof -
    have "collected result ?d i = AList.update i (trimmed_path (raw i)) ?d"
      using r by (simp add: collected_def)
    then show ?thesis by simp
  qed
  show ?case unfolding step
    using ih by (auto simp: distinct_update dom_update update_conv')
qed

lemma sort_distinct_range:
  "distinct xs \<Longrightarrow> set xs = {0 ..< n} \<Longrightarrow> sort xs = [0 ..< n]"
  by (metis distinct_remdups_id sorted_list_of_set_range sorted_list_of_set_sort_remdups)


lemma files_in_index_order_all:
  assumes "\<forall>i \<in> set order. result i = Inr (Some (raw i)) \<and> raw i \<noteq> []"
    and "distinct order" and "set order = {0 ..< n}"
  shows "files_in_index_order (foldl (collected result) [] order)
           = map (\<lambda>i. trimmed_path (raw i)) [0 ..< n]"
proof -
  let ?d = "foldl (collected result) [] order"
  from foldl_collected_props[OF assms(1), of "[]"]
  have d: "distinct (map fst ?d)" "fst ` set ?d = set order"
    "\<forall>i \<in> set order. map_of ?d i = Some (trimmed_path (raw i))" by simp_all
  have "set (map fst ?d) = {0 ..< n}" using d(2) assms(3) by simp
  then have "sort (map fst ?d) = [0 ..< n]"
    using d(1) sort_distinct_range by blast
  then show ?thesis
    using d(3) assms(3) by (simp add: files_in_index_order_def)
qed

text \<open>
  C1 (amended). For a script with \<open>N \<ge> 1\<close> transcripts whose tasks all return a clip and
  whose trims all succeed, the run returns exactly the \<open>N\<close> trimmed clips in ascending
  index order whatever the completion order is, and the manifest lists them in that
  order. A list whose length differs from the expected count never yields a manifest: the
  error is the count mismatch when the list is not empty, and the "no audio files" error
  when it is empty.
\<close>

theorem orchestrator_collects_in_index_order:
  assumes "podcast_transcripts script = Some ts" and "ts \<noteq> []"
    and "distinct order" and "set order = {0 ..< length ts}"
    and "\<forall>i < length ts.
           fst (run_task re_w script cfg tts_adapter i) = Inr (Some (raw i))
           \<and> raw i \<noteq> [] \<and> trim (raw i) (trimmed_path (raw i)) enable = None"
  shows "outcome (generate_all_audio_files re_w script cfg tts_adapter order states trim enable)
           = Inr (map (\<lambda>i. trimmed_path (raw i)) [0 ..< length ts])
       \<and> create_ffmpeg_file_list fs uid
           (map (\<lambda>i. trimmed_path (raw i)) [0 ..< length ts]) (length ts)
           = Inr (path_join output_dir (u ''file_list_'' @ uid @ u ''.txt''),
                  fs(path_join output_dir (u ''file_list_'' @ uid @ u ''.txt'') \<mapsto>
                       concat (map (\<lambda>i. file_line (trimmed_path (raw i))) [0 ..< length ts])))
       \<and> (\<forall>files n. length files \<noteq> n \<longrightarrow>
             create_ffmpeg_file_list fs uid files n
               = Inl (if files = [] then NoAudioFiles else CountMismatch n (length files)))"
proof (intro conjI allI impI)
  let ?result = "\<lambda>i. fst (run_task re_w script cfg tts_adapter i)"
  let ?trim = "\<lambda>src dst. trim src dst enable"
  have ok: "\<forall>i \<in> set order. ?result i = Inr (Some (raw i)) \<and> raw i \<noteq> []"
    using assms(4,5) by simp
  have nf: "\<forall>i \<in> set order. item_failure ?result ?trim i = None"
    using assms(4,5) by (simp add: item_failure_def)
  have loop: "consume_results ?result ?trim order []
                = (None, foldl (collected ?result) [] order, order)"
    using consume_results_no_failure[OF nf] .
  show "outcome (generate_all_audio_files re_w script cfg tts_adapter order states trim enable)
           = Inr (map (\<lambda>i. trimmed_path (raw i)) [0 ..< length ts])"
    using assms(1) loop files_in_index_order_all[OF ok assms(3,4)]
    by (simp add: generate_all_audio_files_def)
next
  show "create_ffmpeg_file_list fs uid
           (map (\<lambda>i. trimmed_path (raw i)) [0 ..< length ts]) (length ts)
           = Inr (path_join output_dir (u ''file_list_'' @ uid @ u ''.txt''),
                  fs(path_join output_dir (u ''file_list_'' @ uid @ u ''.txt'') \<mapsto>
                       concat (map (\<lambda>i. file_line (trimmed_path (raw i))) [0 ..< length ts])))"
    using assms(2) by (simp add: create_ffmpeg_file_list_def Let_def comp_def)
next
  fix files :: "pystr list" and n
  assume "length files \<noteq> n"
  then show "create_ffmpeg_file_list fs uid files n
               = Inl (if files = [] then NoAudioFiles else CountMismatch n (length files))"
    by (simp add: create_ffmpeg_file_list_def)
qed

theorem orchestrator_collects_in_index_order_witness:
  "outcome (generate_all_audio_files w_word w_script w_cfg2 [u ''edge-tts'' \<mapsto> w_ok] [1, 0]
              [FINISHED, FINISHED] (\<lambda>src dst en. None) True)
     = Inr [u ''output/trimmed_a.mp3'', u ''output/trimmed_b.mp3'']"
  using orchestrator_collects_in_index_order
    [of w_script "[\<lparr>speaker_id = 0, dialog = u ''a''\<rparr>, \<lparr>speaker_id = 1, dialog = u ''b''\<rparr>]"
        "[1, 0]" w_word w_cfg2 "[u ''edge-tts'' \<mapsto> w_ok]"
        "\<lambda>i. if i = 0 then u ''output/a.mp3'' else u ''output/b.mp3''"
        "\<lambda>src dst en. None" True "[FINISHED, FINISHED]" Map.empty "[]"]
  by (simp add: w_script_def w_cfg2_def w_ok_def w_word_def run_task_def generate_audio_for_item_def
      resolve_voice_def voice_map_def voice_map_get_def Let_def tts_attempts.simps u_def
      sanitize_def py_isspace_def trimmed_path_def path_join_def basename_def rfind_def
      output_dir_def less_Suc_eq atLeast0_lessThan_Suc insert_commute)


theorem file_list_count_mismatch_counterexample:
  "outcome (generate_all_audio_files w_word w_script (w_cfg2\<lparr>tts_max_retries := Some 0\<rparr>)
              [u ''edge-tts'' \<mapsto> w_ok] [0, 1] [FINISHED, FINISHED] (\<lambda>src dst en. None) True)
     = Inr []
   \<and> create_ffmpeg_file_list Map.empty (u ''0a'') [] 2 = Inl NoAudioFiles
   \<and> create_ffmpeg_file_list Map.empty (u ''0a'') [] 2 \<noteq> Inl (CountMismatch 2 0)"
  by (simp add: w_script_def w_cfg2_def w_ok_def w_word_def run_task_def
      generate_all_audio_files_def generate_audio_for_item_def
      resolve_voice_def voice_map_def voice_map_get_def Let_def tts_attempts.simps u_def
      files_in_index_order_def create_ffmpeg_file_list_def)

subsection \<open>The trim window\<close>



subsection \<open>Cleanup after concatenation\<close>

lemma remove_file_absent: "fs p = None \<Longrightarrow> remove_file env q fs p = None"
  by (simp add: remove_file_def)

lemma remove_file_removes:
  "\<not> me_remove_fails env p \<Longrightarrow> remove_file env p fs p = None"
  by (simp add: remove_file_def)

lemma remove_listed_absent: "fs p = None \<Longrightarrow> remove_listed env line fs p = None"
  by (simp add: remove_listed_def Let_def remove_file_absent)

lemma remove_listed_removes:
  "\<not> me_remove_fails env (listed_path line) \<Longrightarrow> startswith line (u ''file '') \<Longrightarrow>
   remove_listed env line fs (listed_path line) = None"
  by (simp add: remove_listed_def Let_def remove_file_removes)

lemma fold_remove_listed_absent:
  "fs p = None \<Longrightarrow> fold (remove_listed env) ls fs p = None"
  by (induction ls arbitrary: fs) (simp_all add: remove_listed_absent)


lemma fold_remove_listed_removes:
  assumes "\<forall>p. \<not> me_remove_fails env p"
    and "line \<in> set ls" and "startswith line (u ''file '')"
  shows "fold (remove_listed env) ls fs (listed_path line) = None"
  using assms(2)
proof (induction ls arbitrary: fs)
  case Nil
  then show ?case by simp
next
  case (Cons l ls)
  show ?case
  proof (cases "line = l")
    case True
    have nf: "\<not> me_remove_fails env (listed_path line)" using assms(1) by blast
    have "remove_listed env l fs (listed_path line) = None"
      unfolding True[symmetric] by (rule remove_listed_removes[OF nf assms(3)])
    then have "fold (remove_listed env) ls (remove_listed env l fs) (listed_path line) = None"
      by (rule fold_remove_listed_absent)
    then show ?thesis by simp
  next
    case False
    with Cons.prems have "line \<in> set ls" by simp
    then have "fold (remove_listed env) ls (remove_listed env l fs) (listed_path line) = None"
      by (rule Cons.IH)
    then show ?thesis by simp
  qed
qed


lemma cleanup_unfold:
  "cleanup env flp fs =
     (if cleanup_listed env flp fs (path_join output_dir (wav_name env)) \<noteq> None
      then remove_file env (path_join output_dir (wav_name env)) (cleanup_listed env flp fs)
      else cleanup_listed env flp fs)"
  by (simp only: cleanup_def Let_def)

lemma cleanup_keeps_absent:
  assumes "cleanup_listed env flp fs p = None"
  shows "cleanup env flp fs p = None"
proof (cases "cleanup_listed env flp fs (path_join output_dir (wav_name env)) \<noteq> None")
  case True
  then have "cleanup env flp fs
      = remove_file env (path_join output_dir (wav_name env)) (cleanup_listed env flp fs)"
    by (subst cleanup_unfold) simp
  then show ?thesis
    using remove_file_absent[of "cleanup_listed env flp fs" p env
        "path_join output_dir (wav_name env)"] assms by simp
next
  case False
  then have "cleanup env flp fs = cleanup_listed env flp fs"
    by (subst cleanup_unfold) simp
  then show ?thesis using assms by simp
qed

lemma cleanup_listed_absent:
  assumes "fs p = None"
  shows "cleanup_listed env flp fs p = None"
proof (cases "fs flp")
  case None
  then show ?thesis using assms by (simp add: cleanup_listed_def)
next
  case (Some content)
  have "fold (remove_listed env) (file_lines content) fs p = None"
    using assms by (rule fold_remove_listed_absent)
  then have "remove_file env flp (fold (remove_listed env) (file_lines content) fs) p = None"
    by (rule remove_file_absent)
  then show ?thesis using Some by (simp add: cleanup_listed_def)
qed

lemma cleanup_absent: "fs p = None \<Longrightarrow> cleanup env flp fs p = None"
  by (rule cleanup_keeps_absent, rule cleanup_listed_absent)

lemma cleanup_removes:
  assumes "\<forall>p. \<not> me_remove_fails env p" and "fs flp = Some content"
  shows "cleanup env flp fs flp = None
       \<and> cleanup env flp fs (path_join output_dir (wav_name env)) = None
       \<and> (\<forall>line \<in> set (file_lines content). startswith line (u ''file '') \<longrightarrow>
             cleanup env flp fs (listed_path line) = None)"
proof -
  let ?fs0 = "fold (remove_listed env) (file_lines content) fs"
  let ?wav = "path_join output_dir (wav_name env)"
  have nf: "\<not> me_remove_fails env p" for p using assms(1) by blast
  have cl: "cleanup_listed env flp fs = remove_file env flp ?fs0"
    using assms(2) by (simp add: cleanup_listed_def)
  have "remove_file env flp ?fs0 flp = None" using nf by (rule remove_file_removes)
  then have "cleanup_listed env flp fs flp = None" unfolding cl .
  then have a1: "cleanup env flp fs flp = None" by (rule cleanup_keeps_absent)
  have a2: "cleanup env flp fs ?wav = None"
  proof (cases "cleanup_listed env flp fs ?wav \<noteq> None")
    case True
    then have "cleanup env flp fs = remove_file env ?wav (cleanup_listed env flp fs)"
      by (subst cleanup_unfold) simp
    moreover have "remove_file env ?wav (cleanup_listed env flp fs) ?wav = None"
      using nf by (rule remove_file_removes)
    ultimately show ?thesis by simp
  next
    case False
    then have "cleanup_listed env flp fs ?wav = None" by simp
    then show ?thesis by (rule cleanup_keeps_absent)
  qed
  have a3: "cleanup env flp fs (listed_path line) = None"
    if "line \<in> set (file_lines content)" "startswith line (u ''file '')" for line
  proof -
    have "?fs0 (listed_path line) = None"
      using assms(1) that by (rule fold_remove_listed_removes)
    then have "remove_file env flp ?fs0 (listed_path line) = None" by (rule remove_file_absent)
    then have "cleanup_listed env flp fs (listed_path line) = None" unfolding cl .
    then show ?thesis by (rule cleanup_keeps_absent)
  qed
  from a1 a2 a3 show ?thesis by blast
qed


lemma concat_and_convert_other:
  "p \<noteq> path_join output_dir (wav_name env) \<Longrightarrow> p \<noteq> path_join output_dir (mp3_name env) \<Longrightarrow>
   snd (concat_and_convert env fs) p = fs p"
  by (simp add: concat_and_convert_def Let_def split: proc_result.splits)

text \<open>
  C7 (amended). When the check that ffmpeg is installed passes and no removal raises,
  then whether the concatenation or the re-encoding succeeds or fails, after
  \<^verbatim>\<open>merge_audio_files\<close> the manifest is gone, the intermediate WAV file is gone, and so is
  every clip that a \<^verbatim>\<open>file \<close> line of the manifest names.
\<close>

theorem merge_cleanup:
  assumes "me_version env = Ok" and "\<forall>p. \<not> me_remove_fails env p"
    and "fs file_list_path = Some manifest"
    and "file_list_path \<noteq> path_join output_dir (wav_name env)"
    and "file_list_path \<noteq> path_join output_dir (mp3_name env)"
  shows "snd (merge_audio_files env fs file_list_path) file_list_path = None
       \<and> snd (merge_audio_files env fs file_list_path) (path_join output_dir (wav_name env)) = None
       \<and> (\<forall>line \<in> set (file_lines manifest). startswith line (u ''file '') \<longrightarrow>
             snd (merge_audio_files env fs file_list_path) (listed_path line) = None)"
proof -
  obtain r fs1 where cc: "concat_and_convert env fs = (r, fs1)"
    by (cases "concat_and_convert env fs")
  have m: "snd (merge_audio_files env fs file_list_path) = cleanup env file_list_path fs1"
    using assms(1) cc by (simp add: merge_audio_files_def)
  have "fs1 file_list_path = fs file_list_path"
    using concat_and_convert_other[OF assms(4,5), of fs] cc by simp
  then have "fs1 file_list_path = Some manifest" using assms(3) by simp
  from cleanup_removes[of env fs1 file_list_path manifest] assms(2) this
  show ?thesis unfolding m by blast
qed

theorem merge_cleanup_witness:
  "snd (merge_audio_files w_menv w_fs (u ''output/file_list_0a.txt''))
       (u ''output/file_list_0a.txt'') = None
   \<and> snd (merge_audio_files w_menv w_fs (u ''output/file_list_0a.txt''))
       (u ''output/9f17.wav'') = None
   \<and> snd (merge_audio_files w_menv w_fs (u ''output/file_list_0a.txt''))
       (u ''output/trimmed_a.mp3'') = None"
proof -
  have h1: "me_version w_menv = Ok" and h2: "\<forall>p. \<not> me_remove_fails w_menv p"
    by (simp_all add: w_menv_def)
  have h3: "w_fs (u ''output/file_list_0a.txt'') = Some w_manifest"
    by (simp add: w_fs_def u_def)
  have wav: "path_join output_dir (wav_name w_menv) = u ''output/9f17.wav''"
    by code_simp
  have h4: "u ''output/file_list_0a.txt'' \<noteq> path_join output_dir (wav_name w_menv)"
    by code_simp
  have h5: "u ''output/file_list_0a.txt'' \<noteq> path_join output_dir (mp3_name w_menv)"
    by code_simp
  have l1: "file_line (u ''output/trimmed_a.mp3'') \<in> set (file_lines w_manifest)"
    by code_simp
  have l2: "startswith (file_line (u ''output/trimmed_a.mp3'')) (u ''file '')"
    by code_simp
  have l3: "listed_path (file_line (u ''output/trimmed_a.mp3'')) = u ''output/trimmed_a.mp3''"
    by code_simp
  note r = merge_cleanup[of w_menv w_fs "u ''output/file_list_0a.txt''" w_manifest,
      OF h1 h2 h3 h4 h5]
  from r l1 l2
  have "snd (merge_audio_files w_menv w_fs (u ''output/file_list_0a.txt''))
          (listed_path (file_line (u ''output/trimmed_a.mp3''))) = None"
    by blast
  with r show ?thesis by (simp add: wav l3)
qed

theorem merge_cleanup_counterexample:
  "snd (merge_audio_files (w_menv\<lparr>me_version := NotFound\<rparr>) w_fs (u ''output/file_list_0a.txt''))
       (u ''output/trimmed_a.mp3'') = Some (u ''A'')
   \<and> snd (merge_audio_files (w_menv\<lparr>me_version := NotFound\<rparr>) w_fs (u ''output/file_list_0a.txt''))
       (u ''output/file_list_0a.txt'') = Some w_manifest"
  by (simp add: merge_audio_files_def w_menv_def w_fs_def u_def)

subsection \<open>Failure of a task, and resolution before synthesis\<close>

lemma cancel_not_done_props:
  "length (map (\<lambda>f. if \<not> future_done f then future_cancel f else f) states) = length states
   \<and> (\<forall>j < length states.
         map (\<lambda>f. if \<not> future_done f then future_cancel f else f) states ! j
           = (if states ! j = PENDING then CANCELLED else states ! j))
   \<and> PENDING \<notin> set (map (\<lambda>f. if \<not> future_done f then future_cancel f else f) states)"
proof -
  have c: "(if \<not> future_done f then future_cancel f else f)
             = (if f = PENDING then CANCELLED else f)" for f
    by (cases f) auto
  show ?thesis unfolding c by (auto split: if_splits)
qed






text \<open>
  C2. When the task or the trim of some utterance in the completion order fails, the
  loop stops at the first such utterance: it has consumed the results before it and
  nothing after it, the run raises the one error that carries that utterance's index,
  every future that was still pending is cancelled (the others keep their state), and the
  pipeline raises that error without creating a manifest or an output file.
\<close>

theorem first_failure_aborts_run:
  assumes "\<exists>i \<in> set order. loop_failure re_w script cfg tts_adapter trim enable i \<noteq> None"
  shows "\<exists>k e. k \<in> set order
       \<and> loop_failure re_w script cfg tts_adapter trim enable k = Some e
       \<and> outcome (generate_all_audio_files re_w script cfg tts_adapter order states trim enable)
           = Inl (ItemError k e)
       \<and> consumed (generate_all_audio_files re_w script cfg tts_adapter order states trim enable)
           = takeWhile (\<lambda>i. loop_failure re_w script cfg tts_adapter trim enable i = None) order
               @ [k]
       \<and> length (futures (generate_all_audio_files re_w script cfg tts_adapter order states
                            trim enable)) = length states
       \<and> (\<forall>j < length states.
             futures (generate_all_audio_files re_w script cfg tts_adapter order states
                        trim enable) ! j
               = (if states ! j = PENDING then CANCELLED else states ! j))
       \<and> PENDING \<notin> set (futures (generate_all_audio_files re_w script cfg tts_adapter order
                                     states trim enable))
       \<and> (\<forall>upstream envs uid menv fs info.
             trim = trim_call envs \<and> enable
             \<and> generate_speaker_id_text (config_pod_users cfg) (config_voices cfg) = Inr info
             \<and> upstream info = Inr script
           \<longrightarrow> fst (run_pipeline re_w cfg upstream (Inr tts_adapter) order states envs uid menv fs)
                 = Inl (ItemError k e)
               \<and> snd (snd (run_pipeline re_w cfg upstream (Inr tts_adapter) order states envs
                              uid menv fs)) = fs)"
proof -
  let ?fail = "loop_failure re_w script cfg tts_adapter trim enable"
  let ?result = "\<lambda>i. fst (run_task re_w script cfg tts_adapter i)"
  let ?trim = "\<lambda>src dst. trim src dst enable"
  let ?rep = "generate_all_audio_files re_w script cfg tts_adapter order states trim enable"
  from assms obtain pre k post where
    sp: "order = pre @ k # post" and fk: "?fail k \<noteq> None"
    and pre: "\<forall>i \<in> set pre. \<not> ?fail i \<noteq> None"
    using split_list_first_prop[of order "\<lambda>i. ?fail i \<noteq> None"] by blast
  from fk obtain e where e: "?fail k = Some e" by blast
  have pre': "\<forall>i \<in> set pre. item_failure ?result ?trim i = None"
    using pre by (simp add: loop_failure_def)
  have e': "item_failure ?result ?trim k = Some e"
    using e by (simp add: loop_failure_def)
  have loop: "consume_results ?result ?trim order []
      = (Some (ItemError k e), foldl (collected ?result) [] pre, pre @ [k])"
    using consume_results_first_failure[OF sp pre' e'] .
  have tw: "takeWhile (\<lambda>i. ?fail i = None) order = pre"
    unfolding sp using pre e by (simp add: takeWhile_append2)
  have o: "outcome ?rep = Inl (ItemError k e)"
    and c: "consumed ?rep = pre @ [k]"
    and f: "futures ?rep = map (\<lambda>f. if \<not> future_done f then future_cancel f else f) states"
    using loop by (simp_all add: generate_all_audio_files_def)
  have p: "fst (run_pipeline re_w cfg upstream (Inr tts_adapter) order states envs uid menv fs)
             = Inl (ItemError k e)
         \<and> snd (snd (run_pipeline re_w cfg upstream (Inr tts_adapter) order states envs
                        uid menv fs)) = fs"
    if "trim = trim_call envs \<and> enable
        \<and> generate_speaker_id_text (config_pod_users cfg) (config_voices cfg) = Inr info
        \<and> upstream info = Inr script" for upstream envs uid menv fs info
  proof -
    from that have en: "enable = True" by simp
    from that o have "outcome (generate_all_audio_files re_w script cfg tts_adapter order states
        (trim_call envs) True) = Inl (ItemError k e)" unfolding en by simp
    with that show ?thesis by (simp add: run_pipeline_def Let_def)
  qed
  have "k \<in> set order" using sp by simp
  with e o c tw f cancel_not_done_props[of states] p show ?thesis
    by (intro exI[of _ k] exI[of _ e]) (simp only: , blast)
qed


theorem first_failure_aborts_run_witness:
  "\<exists>k e. outcome (generate_all_audio_files w_word w_script3 w_cfg2 [u ''edge-tts'' \<mapsto> w_half]
                   [0, 1, 2] [FINISHED, FINISHED, PENDING] (\<lambda>src dst en. None) True)
            = Inl (ItemError k e)
        \<and> PENDING \<notin> set (futures (generate_all_audio_files w_word w_script3 w_cfg2
                  [u ''edge-tts'' \<mapsto> w_half] [0, 1, 2] [FINISHED, FINISHED, PENDING]
                  (\<lambda>src dst en. None) True))"
proof -
  have h: "\<exists>i \<in> set [0, 1, 2].
      loop_failure w_word w_script3 w_cfg2 [u ''edge-tts'' \<mapsto> w_half]
        (\<lambda>src dst en. None) True i \<noteq> None"
    by (simp add: loop_failure_def item_failure_def run_task_def w_script3_def w_cfg2_def
        w_half_def w_word_def generate_audio_for_item_def resolve_voice_def voice_map_def
        voice_map_get_def Let_def tts_attempts.simps sanitize_def py_isspace_def u_def)
  from first_failure_aborts_run[OF h, where states = "[FINISHED, FINISHED, PENDING]"]
  show ?thesis by blast
qed





subsection \<open>The decoder consumes what it decodes\<close>







subsection \<open>The scan for the script\<close>

















end
